theory Spec2Isabelle
  imports Complex_Main "HOL-Library.AList" "HOL-Library.Word"
begin

unbundle bit_operations_syntax

section \<open>Data model of lbgpsdo.py\<close>

text \<open>
  Python integers are unbounded: they are \<open>int\<close>. \<open>Fraction\<close> is \<open>rat\<close>. A byte of a
  \<open>bytes\<close> object is an \<open>8 word\<close>. An attribute that may hold \<open>None\<close> is an option.
\<close>

text \<open>
  A value passed to \<open>update\<close> for one of the nine PLL keywords: \<open>None\<close>, an \<open>int\<close>, or an
  object that is not an instance of \<open>int\<close> (a string stands for all of them).
\<close>

datatype pyval = PyNone | PyInt int | PyStr string

text \<open>
  The messages of the source are format strings; a message is kept as its format and its
  arguments:
  \<^item> \<open>MustBeInteger name\<close>: \<open>"%s must be an integer."\<close>
  \<^item> \<open>MustBe name msg\<close>: \<open>"%s must be %s."\<close>
  \<^item> \<open>MustBeOneOrEven name\<close>: \<open>"%s must be 1 or even."\<close>
  \<^item> \<open>MustBeEven name\<close>: \<open>"%s must be even."\<close>
  \<^item> \<open>InvalidDriveLevel\<close>: \<open>"Invalid drive level."\<close>
  \<^item> \<open>Undefined name\<close>: \<open>"%s undefined."\<close>
  \<^item> \<open>FreqRange name value msg\<close>: \<open>"%s is %s, but %s."\<close>, whose middle argument
    \<open>_format_freq\<close> renders from \<open>value\<close>
  \<^item> \<open>SkewRange skewmax\<close>: \<open>"SKEW must be in the range of 0 to %d (= NC2_LS - 2)"\<close>
\<close>

datatype errmsg =
    MustBeInteger string
  | MustBe string string
  | MustBeOneOrEven string
  | MustBeEven string
  | InvalidDriveLevel
  | Undefined string
  | FreqRange string rat string
  | SkewRange int

text \<open>
  What a call can raise. \<open>GPSDOConfigurationException\<close> carries the dictionary of
  messages, in insertion order; \<open>StructError\<close> is \<open>struct.error\<close>.
\<close>

datatype error =
    GPSDOConfigurationException "(string \<times> errmsg) list"
  | ZeroDivisionError
  | StructError
  | TypeError
  | IndexError
  | ValueError
  | OverflowError

definition andthen :: "error + 'a \<Rightarrow> ('a \<Rightarrow> error + 'b) \<Rightarrow> error + 'b" where
  "andthen m f = (case m of Inl e \<Rightarrow> Inl e | Inr x \<Rightarrow> f x)"

text \<open>The attributes of class \<open>GPSDO\<close> that \<open>__init__\<close> sets.\<close>

record gpsdo =
  out1 :: bool
  out2 :: bool
  level :: int
  fin :: "int option"
  n3 :: "int option"
  n2_hs :: "int option"
  n2_ls :: "int option"
  n1_hs :: "int option"
  nc1_ls :: "int option"
  nc2_ls :: "int option"
  skew :: "int option"
  bw :: "int option"

definition init :: gpsdo where
  "init = \<lparr> out1 = False, out2 = False, level = 0, fin = None, n3 = None, n2_hs = None,
            n2_ls = None, n1_hs = None, nc1_ls = None, nc2_ls = None,
            skew = Some 0, bw = Some 15 \<rparr>"

definition getattr :: "gpsdo \<Rightarrow> string \<Rightarrow> int option" where
  "getattr s attr =
     (if attr = ''fin'' then fin s
      else if attr = ''n3'' then n3 s
      else if attr = ''n2_hs'' then n2_hs s
      else if attr = ''n2_ls'' then n2_ls s
      else if attr = ''n1_hs'' then n1_hs s
      else if attr = ''nc1_ls'' then nc1_ls s
      else if attr = ''nc2_ls'' then nc2_ls s
      else if attr = ''skew'' then skew s
      else if attr = ''bw'' then bw s
      else None)"

definition setattr :: "gpsdo \<Rightarrow> string \<Rightarrow> int \<Rightarrow> gpsdo" where
  "setattr s attr v =
     (if attr = ''fin'' then s\<lparr>fin := Some v\<rparr>
      else if attr = ''n3'' then s\<lparr>n3 := Some v\<rparr>
      else if attr = ''n2_hs'' then s\<lparr>n2_hs := Some v\<rparr>
      else if attr = ''n2_ls'' then s\<lparr>n2_ls := Some v\<rparr>
      else if attr = ''n1_hs'' then s\<lparr>n1_hs := Some v\<rparr>
      else if attr = ''nc1_ls'' then s\<lparr>nc1_ls := Some v\<rparr>
      else if attr = ''nc2_ls'' then s\<lparr>nc2_ls := Some v\<rparr>
      else if attr = ''skew'' then s\<lparr>skew := Some v\<rparr>
      else if attr = ''bw'' then s\<lparr>bw := Some v\<rparr>
      else s)"

subsection \<open>Limits and check tables\<close>

definition LIMIT_FIN_MIN :: int where "LIMIT_FIN_MIN = 10000"
definition LIMIT_FIN_MAX :: int where "LIMIT_FIN_MAX = 16000000"
definition LIMIT_F3_MIN :: int where "LIMIT_F3_MIN = 10000"
definition LIMIT_F3_MAX :: int where "LIMIT_F3_MAX = 2000000"
definition LIMIT_FOSC_MIN :: int where "LIMIT_FOSC_MIN = 4850000000"
definition LIMIT_FOSC_MAX :: int where "LIMIT_FOSC_MAX = 5670000000"
definition LIMIT_FOUT_MIN :: int where "LIMIT_FOUT_MIN = 450"
definition LIMIT_FOUT_MAX :: int where "LIMIT_FOUT_MAX = 808000000"

text \<open>A row of \<open>_CONFIG_CHECKS\<close>: attribute, name, vmin, vmax, even, msg.\<close>

type_synonym config_check = "string \<times> string \<times> int \<times> int \<times> int \<times> string"

definition CONFIG_CHECKS :: "config_check list" where
  "CONFIG_CHECKS =
    [ (''fin'',    ''GPS reference frequency'',     LIMIT_FIN_MIN, LIMIT_FIN_MAX, 0, ''in the range of 10 kHz to 16 MHz''),
      (''n3'',     ''Input divider N3'',            1,  2 ^ 19, 0, ''in the range of 1 to 524288''),
      (''n2_hs'',  ''Feedback divider N2_HS'',      4,  11,     0, ''in the range of 4 to 11''),
      (''n2_ls'',  ''Feedback divider N2_LS'',      2,  2 ^ 20, 2, ''in the range of 2 to 1048576''),
      (''n1_hs'',  ''Output common divider N1_HS'', 4,  11,     0, ''in the range of 4 to 11''),
      (''nc1_ls'', ''Output 1 divider NC1_LS'',     2,  2 ^ 20, 1, ''in the range of 1 to 1048576''),
      (''nc2_ls'', ''Output 2 divider NC2_LS'',     2,  2 ^ 20, 1, ''in the range of 1 to 1048576''),
      (''skew'',   ''SKEW'',                        0,  255,    0, ''in the range of 0 to 255''),
      (''bw'',     ''BWSEL'',                       0,  15,     0, ''in the range of 0 to 15'') ]"

text \<open>A row of \<open>_FREQ_CHECKS\<close>: attribute, name, lmin, lmax, msg.\<close>

type_synonym freq_check = "string \<times> string \<times> int \<times> int \<times> string"

definition FREQ_CHECKS :: "freq_check list" where
  "FREQ_CHECKS =
    [ (''f3'',    ''Phase detector frequency'', LIMIT_F3_MIN,   LIMIT_F3_MAX,   ''must be in the range of 2 kHz to 2 MHz''),
      (''fosc'',  ''Oscillator frequency'',     LIMIT_FOSC_MIN, LIMIT_FOSC_MAX, ''must be in the range of 4.85 GHz to 5.67 GHz''),
      (''fout1'', ''Output 1 frequency'',       LIMIT_FOUT_MIN, LIMIT_FOUT_MAX, ''must be in the range of 450 Hz to 808 MHz''),
      (''fout2'', ''Output 2 frequency'',       LIMIT_FOUT_MIN, LIMIT_FOUT_MAX, ''must be in the range of 450 Hz to 808 MHz'') ]"

section \<open>GPSDO.update\<close>

text \<open>
  The keyword arguments of \<open>update\<close>: \<open>out1\<close>, \<open>out2\<close> (booleans, or absent), \<open>level\<close>
  (an integer, or absent) and the dictionary of the remaining keywords. The vmin and vmax
  of every row of the table are integers, so the source's tests \<open>vmin is not None\<close> and
  \<open>vmax is not None\<close> are true throughout.
\<close>

record kwargs =
  kw_out1 :: "bool option"
  kw_out2 :: "bool option"
  kw_level :: "int option"
  kw_pll :: "string \<rightharpoonup> pyval"

text \<open>The body of the first loop of \<open>update\<close>, for one row of the table.\<close>

definition check_arg :: "(string \<rightharpoonup> pyval) \<Rightarrow> config_check \<Rightarrow> (string \<times> errmsg) list \<Rightarrow> (string \<times> errmsg) list" where
  "check_arg kw c errdict =
     (case c of (attr, name, vmin, vmax, even', msg) \<Rightarrow>
       (case kw attr of
          None \<Rightarrow> errdict
        | Some PyNone \<Rightarrow> errdict
        | Some (PyStr x) \<Rightarrow> AList.update attr (MustBeInteger name) errdict
        | Some (PyInt v) \<Rightarrow>
            (let errdict1 = (if v < vmin \<or> v > vmax
                             then AList.update attr (MustBe name msg) errdict else errdict)
             in if even' \<noteq> 0 \<and> v mod 2 \<noteq> 0
                then (if even' = 1 \<and> v \<noteq> 1
                      then AList.update attr (MustBeOneOrEven name) errdict1
                      else AList.update attr (MustBeEven name) errdict1)
                else errdict1)))"

text \<open>
  The body of the second loop. It runs only when the first loop recorded no error, so no
  value that is not an integer reaches it.
\<close>

definition set_arg :: "(string \<rightharpoonup> pyval) \<Rightarrow> config_check \<Rightarrow> gpsdo \<Rightarrow> gpsdo" where
  "set_arg kw c s =
     (case c of (attr, name, vmin, vmax, even', msg) \<Rightarrow>
       (case kw attr of Some (PyInt v) \<Rightarrow> setattr s attr v | _ \<Rightarrow> s))"

text \<open>
  \<open>update\<close> returns what the call raises (or nothing) and the object after the call.
\<close>

definition update :: "gpsdo \<Rightarrow> kwargs \<Rightarrow> (error + unit) \<times> gpsdo" where
  "update s kw =
     (let errdict = fold (check_arg (kw_pll kw)) CONFIG_CHECKS [];
          errdict = (case kw_level kw of
                       Some l \<Rightarrow> if l < 0 \<or> l > 3
                                 then AList.update ''level'' InvalidDriveLevel errdict else errdict
                     | None \<Rightarrow> errdict)
      in if errdict \<noteq> [] then (Inl (GPSDOConfigurationException errdict), s)
         else
           (let s = fold (set_arg (kw_pll kw)) CONFIG_CHECKS s;
                s = (case kw_out1 kw of Some b \<Rightarrow> s\<lparr>out1 := b\<rparr> | None \<Rightarrow> s);
                s = (case kw_out2 kw of Some b \<Rightarrow> s\<lparr>out2 := b\<rparr> | None \<Rightarrow> s);
                s = (case kw_level kw of Some l \<Rightarrow> s\<lparr>level := l\<rparr> | None \<Rightarrow> s)
            in (Inr (), s)))"

text \<open>A call that passes nothing but the given PLL keywords.\<close>

definition only :: "(string \<rightharpoonup> pyval) \<Rightarrow> kwargs" where
  "only m = \<lparr> kw_out1 = None, kw_out2 = None, kw_level = None, kw_pll = m \<rparr>"

text \<open>
  A supplied value breaks a row of the table when it is not an integer, lies outside
  the row's range, or breaks the row's parity rule (even = 2: must be even; even = 1: must
  be 1 or even). The drive level is bound to 0..3.
\<close>

definition violates :: "config_check \<Rightarrow> pyval \<Rightarrow> bool" where
  "violates c pv =
     (case c of (attr, name, vmin, vmax, even', msg) \<Rightarrow>
       (case pv of
          PyNone \<Rightarrow> False
        | PyStr x \<Rightarrow> True
        | PyInt v \<Rightarrow> v < vmin \<or> v > vmax \<or> (even' = 2 \<and> odd v) \<or> (even' = 1 \<and> odd v \<and> v \<noteq> 1)))"

definition level_violates :: "int \<Rightarrow> bool" where
  "level_violates l = (l < 0 \<or> 3 < l)"

section \<open>GPSDO.freqplan\<close>

text \<open>The dictionary \<open>freq\<close> that \<open>freqplan\<close> returns.\<close>

record freq =
  f3 :: "rat option"
  fosc :: "rat option"
  fout1 :: "rat option"
  fout2 :: "rat option"
  phaseres :: "rat option"
  phase :: "rat option"
  phaseangle :: "rat option"
  phaseangleres :: "rat option"

text \<open>\<open>freq[attr]\<close> for the attributes of \<open>_FREQ_CHECKS\<close>.\<close>

definition freq_item :: "freq \<Rightarrow> string \<Rightarrow> rat option" where
  "freq_item fr attr =
     (if attr = ''f3'' then f3 fr
      else if attr = ''fosc'' then fosc fr
      else if attr = ''fout1'' then fout1 fr
      else if attr = ''fout2'' then fout2 fr
      else None)"

text \<open>\<open>Fraction(n, d)\<close>, and the division of a \<open>Fraction\<close>: both raise on a zero divisor.\<close>

definition Fraction :: "int \<Rightarrow> int \<Rightarrow> error + rat" where
  "Fraction n d = (if d = 0 then Inl ZeroDivisionError else Inr (of_int n / of_int d))"

definition truediv :: "rat \<Rightarrow> rat \<Rightarrow> error + rat" where
  "truediv a b = (if b = 0 then Inl ZeroDivisionError else Inr (a / b))"

text \<open>\<open>a % b\<close> on integers: the sign of the result is the divisor's, as with \<open>mod\<close>.\<close>

definition py_mod :: "int \<Rightarrow> int \<Rightarrow> error + int" where
  "py_mod a b = (if b = 0 then Inl ZeroDivisionError else Inr (a mod b))"

definition defined :: "error + 'a \<Rightarrow> error + 'a option" where
  "defined m = andthen m (\<lambda>x. Inr (Some x))"

text \<open>The block under \<open>if modify:\<close>.\<close>

definition freqplan_modify :: "gpsdo \<Rightarrow> gpsdo" where
  "freqplan_modify s =
     (let s = (if \<not> out1 s \<and> nc1_ls s = None \<and> out2 s then s\<lparr>nc1_ls := nc2_ls s\<rparr> else s);
          s = (if \<not> out2 s \<and> nc2_ls s = None \<and> out1 s then s\<lparr>nc2_ls := nc1_ls s\<rparr> else s)
      in if \<not> out1 s \<and> \<not> out2 s
         then (let s = (if nc1_ls s = None then s\<lparr>nc1_ls := Some 5670\<rparr> else s)
               in if nc2_ls s = None then s\<lparr>nc2_ls := Some 5670\<rparr> else s)
         else s)"

text \<open>The loop that records the undefined settings.\<close>

definition check_undefined :: "gpsdo \<Rightarrow> config_check \<Rightarrow> (string \<times> errmsg option) list \<Rightarrow> (string \<times> errmsg option) list" where
  "check_undefined s c errdict =
     (case c of (attr, name, lmin, lmax, even', msg) \<Rightarrow>
        AList.update attr (if getattr s attr = None then Some (Undefined name) else None) errdict)"

text \<open>The eight assignments under \<open>Compute frequency plan\<close>, in the order of the source.\<close>

definition compute_freq :: "gpsdo \<Rightarrow> error + freq" where
  "compute_freq s =
     andthen (case (fin s, n3 s) of
                (Some a, Some b) \<Rightarrow> defined (Fraction a b)
              | _ \<Rightarrow> Inr None) (\<lambda>f3'.
     let fosc' = (case (f3', n2_hs s, n2_ls s) of
                    (Some f, Some a, Some b) \<Rightarrow> Some (f * of_int a * of_int b)
                  | _ \<Rightarrow> None) in
     andthen (case (fosc', n1_hs s, nc1_ls s) of
                (Some f, Some a, Some b) \<Rightarrow> defined (truediv f (of_int (a * b)))
              | _ \<Rightarrow> Inr None) (\<lambda>fout1'.
     andthen (case (fosc', n1_hs s, nc2_ls s) of
                (Some f, Some a, Some b) \<Rightarrow> defined (truediv f (of_int (a * b)))
              | _ \<Rightarrow> Inr None) (\<lambda>fout2'.
     andthen (case (fosc', n1_hs s, skew s) of
                (Some f, Some a, Some k) \<Rightarrow> defined (truediv (of_int (k * a)) f)
              | _ \<Rightarrow> Inr None) (\<lambda>phase'.
     andthen (case (fosc', n1_hs s) of
                (Some f, Some a) \<Rightarrow> defined (truediv (of_int a) f)
              | _ \<Rightarrow> Inr None) (\<lambda>phaseres'.
     andthen (case (nc2_ls s, skew s) of
                (Some n, Some k) \<Rightarrow> andthen (py_mod k n) (\<lambda>r. defined (Fraction r n))
              | _ \<Rightarrow> Inr None) (\<lambda>phaseangle'.
     andthen (case nc2_ls s of
                Some n \<Rightarrow> defined (Fraction 1 n)
              | None \<Rightarrow> Inr None) (\<lambda>phaseangleres'.
     Inr \<lparr> f3 = f3', fosc = fosc', fout1 = fout1', fout2 = fout2', phaseres = phaseres',
           phase = phase', phaseangle = phaseangle', phaseangleres = phaseangleres' \<rparr>)))))))"

text \<open>
  \<open>_scale_freq\<close>: the loop over the units divides by 1000 until the value is below 1000;
  after the last unit the value is returned as it is, with the unit GHz.
\<close>

fun scale_freq :: "rat \<Rightarrow> string list \<Rightarrow> rat \<times> string" where
  "scale_freq v [] = (v, ''GHz'')"
| "scale_freq v (u # us) = (if v < 1000 then (v, u) else scale_freq (v / 1000) us)"

text \<open>
  \<open>_format_freq\<close>: \<open>"%7.3f %-3s" % (valuenum, valueunit)\<close> converts the \<open>Fraction\<close>
  \<open>valuenum\<close> to a float, which raises \<open>OverflowError\<close> when the quotient rounds to
  \<open>2^1024\<close> or beyond, that is when its magnitude is at least \<open>2^1024 - 2^970\<close>. The text
  is not modelled: the result is the pair of its arguments.
\<close>

definition format_freq :: "rat \<Rightarrow> error + rat \<times> string" where
  "format_freq v =
     (let (valuenum, valueunit) = scale_freq v [''Hz'', ''kHz'', ''MHz'', ''GHz'']
      in if \<bar>valuenum\<bar> \<ge> 2 ^ 1024 - 2 ^ 970 then Inl OverflowError
         else Inr (valuenum, valueunit))"

text \<open>The body of the loop that checks the allowed frequency ranges.\<close>

definition check_freq :: "bool \<Rightarrow> freq \<Rightarrow> freq_check \<Rightarrow> (string \<times> errmsg option) list \<Rightarrow> error + (string \<times> errmsg option) list" where
  "check_freq ignore_freq_limits fr c errdict =
     (case c of (attr, name, lmin, lmax, msg) \<Rightarrow>
       (case freq_item fr attr of
          None \<Rightarrow> Inr (AList.update attr (Some (Undefined name)) errdict)
        | Some v \<Rightarrow>
            if ignore_freq_limits then Inr (AList.update attr None errdict)
            else if v < of_int lmin \<or> v > of_int lmax
                 then andthen (format_freq v) (\<lambda>rendered.
                        Inr (AList.update attr (Some (FreqRange name v msg)) errdict))
            else Inr (AList.update attr None errdict)))"

text \<open>The loop itself: it stops at the first row whose message cannot be rendered.\<close>

fun check_freqs :: "bool \<Rightarrow> freq \<Rightarrow> freq_check list \<Rightarrow> (string \<times> errmsg option) list \<Rightarrow> error + (string \<times> errmsg option) list" where
  "check_freqs ignore_freq_limits fr [] errdict = Inr errdict"
| "check_freqs ignore_freq_limits fr (c # cs) errdict =
     andthen (check_freq ignore_freq_limits fr c errdict) (check_freqs ignore_freq_limits fr cs)"

text \<open>The block under \<open>Check skew\<close>.\<close>

definition check_skew :: "gpsdo \<Rightarrow> (string \<times> errmsg option) list \<Rightarrow> (string \<times> errmsg option) list" where
  "check_skew s errdict =
     (let errdict = (case (skew s, nc2_ls s) of
                       (Some k, Some n) \<Rightarrow>
                         (let skewmax = max (n - 2) 0
                          in if k > skewmax
                             then AList.update ''skew'' (Some (SkewRange skewmax)) errdict
                             else errdict)
                     | _ \<Rightarrow> errdict)
      in if map_of errdict ''skew'' = None then AList.update ''skew'' None errdict else errdict)"

text \<open>
  \<open>freqplan\<close> returns what the call raises or its triple \<open>(freq, errdict, errflag)\<close>, and the
  object after the call (\<open>modify\<close> may have set the output dividers).
\<close>

definition freqplan :: "gpsdo \<Rightarrow> bool \<Rightarrow> bool \<Rightarrow> (error + freq \<times> (string \<times> errmsg option) list \<times> bool) \<times> gpsdo" where
  "freqplan s modify ignore_freq_limits =
     (let s = (if modify then freqplan_modify s else s);
          errdict = fold (check_undefined s) CONFIG_CHECKS []
      in (andthen (compute_freq s) (\<lambda>fr.
          andthen (check_freqs ignore_freq_limits fr FREQ_CHECKS errdict) (\<lambda>errdict.
            let errdict = check_skew s errdict
            in Inr (fr, errdict, list_ex (\<lambda>v. v \<noteq> None) (map snd errdict)))), s))"

section \<open>Example objects and calls\<close>

definition kw_bad :: kwargs where
  "kw_bad = \<lparr> kw_out1 = Some True, kw_out2 = None, kw_level = Some 7,
              kw_pll = [''n3'' \<mapsto> PyInt 0, ''n2_ls'' \<mapsto> PyInt 3, ''bw'' \<mapsto> PyInt 4] \<rparr>"

definition s_inside :: gpsdo where
  "s_inside = init \<lparr> fin := Some 10000, n3 := Some 2, n2_hs := Some 10, n2_ls := Some 100000,
                     n1_hs := Some 4, nc1_ls := Some 2, nc2_ls := Some 2 \<rparr>"

definition s_edge :: gpsdo where
  "s_edge = init \<lparr> fin := Some 10000000, n3 := Some 1000, n2_hs := Some 10, n2_ls := Some 50000,
                   n1_hs := Some 5, nc1_ls := Some 2, nc2_ls := Some 2 \<rparr>"

definition s_exact :: gpsdo where
 "s_exact = init \<lparr> fin := Some 10000000, n3 := Some 1, n2_hs := Some 4, n2_ls := Some 1024,
      n1_hs := Some 4, nc1_ls := Some 1, nc2_ls := Some 1 \<rparr>"

definition s_skew :: "int \<Rightarrow> int \<Rightarrow> gpsdo" where
  "s_skew k n = s_edge \<lparr> nc2_ls := Some n, skew := Some k \<rparr>"

definition fr_inside :: freq where
  "fr_inside = \<lparr>f3 = Some 5000, fosc = Some 5000000000, fout1 = Some 625000000,
           fout2 = Some 625000000, phaseres = Some (1 / 1250000000), phase = Some 0,
           phaseangle = Some 0, phaseangleres = Some (1 / 2)\<rparr>"

section \<open>GPSDODevice: the register codec\<close>

type_synonym byte = "8 word"

definition OUTPUT1 :: int where "OUTPUT1 = 1"
definition OUTPUT2 :: int where "OUTPUT2 = 2"
definition COMMAND_OUTPUT :: int where "COMMAND_OUTPUT = 1"
definition COMMAND_IDENTIFY :: int where "COMMAND_IDENTIFY = 2"
definition COMMAND_LEVEL :: int where "COMMAND_LEVEL = 3"
definition COMMAND_PLL :: int where "COMMAND_PLL = 4"

text \<open>\<open>buf[i:j]\<close> for \<open>0 \<le> i \<le> j\<close>: a slice is cut short at the end of the buffer.\<close>

definition slice :: "'a list \<Rightarrow> nat \<Rightarrow> nat \<Rightarrow> 'a list" where
  "slice buf i j = take (j - i) (drop i buf)"

text \<open>
  \<open>struct.unpack("<B", b)[0]\<close> and \<open>struct.unpack("<I", b)[0]\<close>: they raise
  \<open>struct.error\<close> unless the buffer has exactly 1 and 4 bytes.
\<close>

definition unpack_B :: "byte list \<Rightarrow> error + int" where
  "unpack_B b = (case b of [b0] \<Rightarrow> Inr (uint b0) | _ \<Rightarrow> Inl StructError)"

definition unpack_I :: "byte list \<Rightarrow> error + int" where
  "unpack_I b =
     (case b of
        [b0, b1, b2, b3] \<Rightarrow>
          Inr (uint b0 + 256 * uint b1 + 65536 * uint b2 + 16777216 * uint b3)
      | _ \<Rightarrow> Inl StructError)"

text \<open>
  \<open>struct.pack("<B", v)\<close> and \<open>struct.pack("<I", v)\<close>: they raise \<open>struct.error\<close> when
  \<open>v\<close> is \<open>None\<close> or does not fit 8 and 32 bits unsigned.
\<close>

definition pack_B :: "int option \<Rightarrow> error + byte list" where
  "pack_B a =
     (case a of
        None \<Rightarrow> Inl StructError
      | Some v \<Rightarrow> if 0 \<le> v \<and> v < 2 ^ 8 then Inr [word_of_int v] else Inl StructError)"

definition pack_I :: "int option \<Rightarrow> error + byte list" where
  "pack_I a =
     (case a of
        None \<Rightarrow> Inl StructError
      | Some v \<Rightarrow>
          if 0 \<le> v \<and> v < 2 ^ 32
          then Inr [word_of_int v, word_of_int (v div 256), word_of_int (v div 65536),
                    word_of_int (v div 16777216)]
          else Inl StructError)"

text \<open>\<open>self.attr - k\<close>: a \<open>TypeError\<close> when the attribute is \<open>None\<close>.\<close>

definition py_sub :: "int option \<Rightarrow> int \<Rightarrow> error + int option" where
  "py_sub a k = (case a of None \<Rightarrow> Inl TypeError | Some v \<Rightarrow> Inr (Some (v - k)))"

text \<open>\<open>buf[i:j] = b\<close> on a list of integers, and \<open>bytes(buf)\<close>.\<close>

definition slice_assign :: "int list \<Rightarrow> nat \<Rightarrow> nat \<Rightarrow> byte list \<Rightarrow> int list" where
  "slice_assign buf i j b = take i buf @ map uint b @ drop j buf"

definition bytes :: "int list \<Rightarrow> error + byte list" where
  "bytes buf =
     (if list_all (\<lambda>x. 0 \<le> x \<and> x < 256) buf then Inr (map word_of_int buf)
      else Inl ValueError)"

text \<open>The dictionary that \<open>read_config\<close> builds.\<close>

record configdict =
  c_out1 :: bool
  c_out2 :: bool
  c_level :: int
  c_fin :: int
  c_n3 :: int
  c_n2_hs :: int
  c_n2_ls :: int
  c_n1_hs :: int
  c_nc1_ls :: int
  c_nc2_ls :: int
  c_skew :: int
  c_bw :: int

text \<open>The assignments of \<open>read_config\<close> to \<open>result\<close>, on the feature report \<open>buf\<close>.\<close>

definition decode_config :: "byte list \<Rightarrow> error + configdict" where
  "decode_config buf =
     (case buf of
        [] \<Rightarrow> Inl IndexError
      | b0 # rest \<Rightarrow>
     andthen (unpack_B (slice buf 1 2)) (\<lambda>level'.
     andthen (unpack_I (slice buf 2 5 @ [0])) (\<lambda>fin'.
     andthen (unpack_I (slice buf 5 8 @ [0])) (\<lambda>n3'.
     andthen (unpack_B (slice buf 8 9)) (\<lambda>n2_hs'.
     andthen (unpack_I (slice buf 9 12 @ [0])) (\<lambda>n2_ls'.
     andthen (unpack_B (slice buf 12 13)) (\<lambda>n1_hs'.
     andthen (unpack_I (slice buf 13 16 @ [0])) (\<lambda>nc1_ls'.
     andthen (unpack_I (slice buf 16 19 @ [0])) (\<lambda>nc2_ls'.
     andthen (unpack_B (slice buf 19 20)) (\<lambda>skew'.
     andthen (unpack_B (slice buf 20 21)) (\<lambda>bw'.
     Inr \<lparr> c_out1 = (uint b0 AND OUTPUT1 \<noteq> 0), c_out2 = (uint b0 AND OUTPUT2 \<noteq> 0),
           c_level = level', c_fin = fin', c_n3 = n3' + 1, c_n2_hs = n2_hs' + 4,
           c_n2_ls = n2_ls' + 1, c_n1_hs = n1_hs' + 4, c_nc1_ls = nc1_ls' + 1,
           c_nc2_ls = nc2_ls' + 1, c_skew = skew', c_bw = bw' \<rparr>)))))))))))"

text \<open>\<open>**result\<close>: the dictionary as the keyword arguments of \<open>update\<close>.\<close>

definition kwargs_of :: "configdict \<Rightarrow> kwargs" where
  "kwargs_of c =
     \<lparr> kw_out1 = Some (c_out1 c), kw_out2 = Some (c_out2 c), kw_level = Some (c_level c),
       kw_pll = [''fin'' \<mapsto> PyInt (c_fin c), ''n3'' \<mapsto> PyInt (c_n3 c),
                 ''n2_hs'' \<mapsto> PyInt (c_n2_hs c), ''n2_ls'' \<mapsto> PyInt (c_n2_ls c),
                 ''n1_hs'' \<mapsto> PyInt (c_n1_hs c), ''nc1_ls'' \<mapsto> PyInt (c_nc1_ls c),
                 ''nc2_ls'' \<mapsto> PyInt (c_nc2_ls c), ''skew'' \<mapsto> PyInt (c_skew c),
                 ''bw'' \<mapsto> PyInt (c_bw c)] \<rparr>"

text \<open>
  The device, as far as the class talks to it: the bytes \<open>self.device.read(2)\<close> returns,
  the bytes \<open>self.device.get_feature_report(9, 60)\<close> returns, and the feature reports
  sent so far. The status attributes that \<open>read_status\<close> also stores on the object
  are not settings and are kept in its result only.
\<close>

record device =
  input_report :: "byte list"
  feature_report :: "byte list"
  sent :: "byte list list"

record status =
  loss_count :: int
  sat_lock :: bool
  pll_lock :: bool

definition read_status :: "device \<Rightarrow> error + status" where
  "read_status dev =
     (case input_report dev of
        b0 # b1 # rest \<Rightarrow>
          Inr \<lparr> loss_count = uint b0, sat_lock = (\<not> (uint b1 AND 1 \<noteq> 0)),
                pll_lock = (\<not> (uint b1 AND 2 \<noteq> 0)) \<rparr>
      | _ \<Rightarrow> Inl IndexError)"

definition read_config :: "gpsdo \<Rightarrow> device \<Rightarrow> bool \<Rightarrow> (error + configdict) \<times> gpsdo" where
  "read_config s dev upd =
     (case decode_config (feature_report dev) of
        Inl e \<Rightarrow> (Inl e, s)
      | Inr result \<Rightarrow>
          if upd
          then (case update s (kwargs_of result) of
                  (Inl e, s') \<Rightarrow> (Inl e, s')
                | (Inr u, s') \<Rightarrow> (Inr result, s'))
          else (Inr result, s))"

definition read :: "gpsdo \<Rightarrow> device \<Rightarrow> bool \<Rightarrow> (error + status \<times> configdict) \<times> gpsdo" where
  "read s dev upd =
     (case read_status dev of
        Inl e \<Rightarrow> (Inl e, s)
      | Inr st \<Rightarrow>
          (case read_config s dev upd of
             (Inl e, s') \<Rightarrow> (Inl e, s')
           | (Inr c, s') \<Rightarrow> (Inr (st, c), s')))"

text \<open>The three buffers that \<open>write\<close> builds, each up to \<open>bytes(buf)\<close>.\<close>

definition encode_pll :: "gpsdo \<Rightarrow> error + byte list" where
  "encode_pll s =
     (let buf = replicate 60 0;
          buf = buf[0 := COMMAND_PLL] in
      andthen (pack_I (fin s)) (\<lambda>p.
      let buf = slice_assign buf 1 4 (take 3 p) in
      andthen (andthen (py_sub (n3 s) 1) pack_I) (\<lambda>p.
      let buf = slice_assign buf 4 7 (take 3 p) in
      andthen (andthen (py_sub (n2_hs s) 4) pack_B) (\<lambda>p.
      let buf = slice_assign buf 7 8 (take 1 p) in
      andthen (andthen (py_sub (n2_ls s) 1) pack_I) (\<lambda>p.
      let buf = slice_assign buf 8 11 (take 3 p) in
      andthen (andthen (py_sub (n1_hs s) 4) pack_B) (\<lambda>p.
      let buf = slice_assign buf 11 12 (take 1 p) in
      andthen (andthen (py_sub (nc1_ls s) 1) pack_I) (\<lambda>p.
      let buf = slice_assign buf 12 15 (take 3 p) in
      andthen (andthen (py_sub (nc2_ls s) 1) pack_I) (\<lambda>p.
      let buf = slice_assign buf 15 18 (take 3 p) in
      andthen (pack_B (skew s)) (\<lambda>p.
      let buf = slice_assign buf 18 19 (take 1 p) in
      andthen (pack_B (bw s)) (\<lambda>p.
      let buf = slice_assign buf 19 20 (take 1 p) in
      bytes buf))))))))))"

definition encode_level :: "gpsdo \<Rightarrow> error + byte list" where
  "encode_level s =
     (let buf = replicate 60 0;
          buf = buf[0 := COMMAND_LEVEL];
          buf = buf[1 := level s]
      in bytes buf)"

definition encode_output :: "gpsdo \<Rightarrow> error + byte list" where
  "encode_output s =
     (let buf = replicate 60 0;
          buf = buf[0 := COMMAND_OUTPUT];
          buf = buf[1 := (buf ! 1) OR (if out1 s then OUTPUT1 else 0)];
          buf = buf[1 := (buf ! 1) OR (if out2 s then OUTPUT2 else 0)]
      in bytes buf)"

text \<open>\<open>self.device.send_feature_report(bytes(buf))\<close> under its \<open>if\<close>.\<close>

definition upload :: "bool \<Rightarrow> error + byte list \<Rightarrow> device \<Rightarrow> error + device" where
  "upload differs report dev =
     (if differs then andthen report (\<lambda>b. Inr (dev\<lparr>sent := sent dev @ [b]\<rparr>)) else Inr dev)"

text \<open>The dictionary of the exception of \<open>write\<close>: the entries that are not \<open>None\<close>.\<close>

definition messages :: "(string \<times> errmsg option) list \<Rightarrow> (string \<times> errmsg) list" where
  "messages errdict = List.map_filter (\<lambda>(a, v). map_option (Pair a) v) errdict"

text \<open>
  \<open>write\<close> returns what the call raises (or nothing) and the device after the call. The
  call of \<open>freqplan\<close> has \<open>modify = False\<close> and \<open>read\<close> has \<open>update = False\<close>, so the settings
  of the object are as before.
\<close>

definition write' :: "gpsdo \<Rightarrow> device \<Rightarrow> bool \<Rightarrow> bool \<Rightarrow> (error + unit) \<times> device" where
  "write' s dev overwrite ignore_freq_limits =
     (case fst (freqplan s False ignore_freq_limits) of
        Inl e \<Rightarrow> (Inl e, dev)
      | Inr (fr, errdict, errflag) \<Rightarrow>
          if errflag then (Inl (GPSDOConfigurationException (messages errdict)), dev)
          else
            (case fst (read s dev False) of
               Inl e \<Rightarrow> (Inl e, dev)
             | Inr (st, configdict) \<Rightarrow>
                 (case upload (overwrite \<or>
                               fin s \<noteq> Some (c_fin configdict) \<or>
                               n3 s \<noteq> Some (c_n3 configdict) \<or>
                               n2_hs s \<noteq> Some (c_n2_hs configdict) \<or>
                               n2_ls s \<noteq> Some (c_n2_ls configdict) \<or>
                               n1_hs s \<noteq> Some (c_n1_hs configdict) \<or>
                               nc1_ls s \<noteq> Some (c_nc1_ls configdict) \<or>
                               nc2_ls s \<noteq> Some (c_nc2_ls configdict) \<or>
                               skew s \<noteq> Some (c_skew configdict) \<or>
                               bw s \<noteq> Some (c_bw configdict))
                         (encode_pll s) dev of
                    Inl e \<Rightarrow> (Inl e, dev)
                  | Inr dev1 \<Rightarrow>
                 (case upload (overwrite \<or> level s \<noteq> c_level configdict)
                         (encode_level s) dev1 of
                    Inl e \<Rightarrow> (Inl e, dev1)
                  | Inr dev2 \<Rightarrow>
                 (case upload (overwrite \<or> out1 s \<noteq> c_out1 configdict \<or>
                               out2 s \<noteq> c_out2 configdict)
                         (encode_output s) dev2 of
                    Inl e \<Rightarrow> (Inl e, dev2)
                  | Inr dev3 \<Rightarrow> (Inr (), dev3))))))"

text \<open>
  The feature report of a device that holds the payloads of the three write buffers: the
  read layout has the output flags at offset 0, the level at offset 1 and the PLL payload
  (bytes 1..19 of the PLL buffer) at offsets 2..20, padded with zeros to 60 bytes.
\<close>

definition read_image :: "byte list \<Rightarrow> byte list \<Rightarrow> byte list \<Rightarrow> byte list" where
  "read_image outp lvl pll = [outp ! 1, lvl ! 1] @ slice pll 1 20 @ replicate 39 0"

definition s_valid :: gpsdo where
  "s_valid = \<lparr> out1 = True, out2 = False, level = 2, fin = Some 10000000, n3 = Some 1000,
      n2_hs = Some 10, n2_ls = Some 50000, n1_hs = Some 5, nc1_ls = Some 2, nc2_ls = Some 6,
      skew = Some 3, bw = Some 15 \<rparr>"

definition s_wide :: gpsdo where
  "s_wide = \<lparr> out1 = True, out2 = False, level = 2, fin = Some 16777216, n3 = Some 1000,
      n2_hs = Some 10, n2_ls = Some 50000, n1_hs = Some 5, nc1_ls = Some 2, nc2_ls = Some 6,
      skew = Some 3, bw = Some 15 \<rparr>"

text \<open>The object that holds the settings of a dictionary of \<open>read_config\<close>.\<close>

definition gpsdo_of :: "configdict \<Rightarrow> gpsdo" where
  "gpsdo_of c =
     \<lparr> out1 = c_out1 c, out2 = c_out2 c, level = c_level c, fin = Some (c_fin c),
       n3 = Some (c_n3 c), n2_hs = Some (c_n2_hs c), n2_ls = Some (c_n2_ls c),
       n1_hs = Some (c_n1_hs c), nc1_ls = Some (c_nc1_ls c), nc2_ls = Some (c_nc2_ls c),
       skew = Some (c_skew c), bw = Some (c_bw c) \<rparr>"

text \<open>The decoding of a feature report of zeros.\<close>

definition c_zero :: configdict where
  "c_zero = \<lparr> c_out1 = False, c_out2 = False, c_level = 0, c_fin = 0, c_n3 = 1,
      c_n2_hs = 4, c_n2_ls = 1, c_n1_hs = 4, c_nc1_ls = 1, c_nc2_ls = 1, c_skew = 0,
      c_bw = 0 \<rparr>"

text \<open>
  \<open>fosc = fin / n3 * n2_hs * n2_ls\<close> of a dictionary: the divisor of \<open>phase\<close> and
  \<open>phaseres\<close> in \<open>freqplan\<close>.
\<close>

definition fosc_of :: "configdict \<Rightarrow> rat" where
  "fosc_of c = of_int (c_fin c) / of_int (c_n3 c) * of_int (c_n2_hs c) * of_int (c_n2_ls c)"

section \<open>Properties of update\<close>

lemmas update_defs = update_def only_def CONFIG_CHECKS_def check_arg_def set_arg_def
  setattr_def LIMIT_FIN_MIN_def LIMIT_FIN_MAX_def

text \<open>
  C1 (the code departs from the claim). The claim has \<open>update(nc1_ls = 1)\<close> succeed. In the
  source the row of \<open>nc1_ls\<close> has vmin 2, and for an odd value under the rule "1 or even"
  the branch that excuses the value 1 falls through to the message "must be even": the
  call raises, with that message, and the object is unchanged.
\<close>

theorem update_nc1_ls_1_rejected:
  "update s (only [''nc1_ls'' \<mapsto> PyInt 1]) =
     (Inl (GPSDOConfigurationException [(''nc1_ls'', MustBeEven ''Output 1 divider NC1_LS'')]), s)"
  by (simp add: update_defs)

text \<open>The other three calls of the claim do what it says.\<close>

lemma update_nc1_ls_3:
  "update s (only [''nc1_ls'' \<mapsto> PyInt 3]) =
     (Inl (GPSDOConfigurationException [(''nc1_ls'', MustBeOneOrEven ''Output 1 divider NC1_LS'')]), s)"
  by (simp add: update_defs)

lemma update_n2_ls_3:
  "update s (only [''n2_ls'' \<mapsto> PyInt 3]) =
     (Inl (GPSDOConfigurationException [(''n2_ls'', MustBeEven ''Feedback divider N2_LS'')]), s)"
  by (simp add: update_defs)

lemma update_n2_ls_1:
  "update s (only [''n2_ls'' \<mapsto> PyInt 1]) =
     (Inl (GPSDOConfigurationException [(''n2_ls'', MustBeEven ''Feedback divider N2_LS'')]), s)"
  by (simp add: update_defs)

lemma update_nc1_ls_2:
  "update s (only [''nc1_ls'' \<mapsto> PyInt 2]) = (Inr (), s\<lparr>nc1_ls := Some 2\<rparr>)"
  by (simp add: update_defs)

text \<open>What \<open>update\<close> accepts for the three low-speed dividers: the even values of 2..1048576.\<close>

lemma update_accepts_nc1_ls:
  "fst (update s (only [''nc1_ls'' \<mapsto> PyInt v])) = Inr () \<longleftrightarrow> 2 \<le> v \<and> v \<le> 1048576 \<and> even v"
  by (auto simp add: update_defs Let_def)

lemma update_accepts_nc2_ls:
  "fst (update s (only [''nc2_ls'' \<mapsto> PyInt v])) = Inr () \<longleftrightarrow> 2 \<le> v \<and> v \<le> 1048576 \<and> even v"
  by (auto simp add: update_defs Let_def)

lemma update_accepts_n2_ls:
  "fst (update s (only [''n2_ls'' \<mapsto> PyInt v])) = Inr () \<longleftrightarrow> 2 \<le> v \<and> v \<le> 1048576 \<and> even v"
  by (auto simp add: update_defs Let_def)

lemma map_of_update_keeps:
  "map_of e a \<noteq> None \<Longrightarrow> map_of (AList.update k v e) a \<noteq> None"
  by (simp add: update_conv')

lemma check_arg_keeps:
  "map_of e a \<noteq> None \<Longrightarrow> map_of (check_arg kw c e) a \<noteq> None"
  by (cases c) (auto simp: check_arg_def Let_def update_conv' split: option.splits pyval.splits)

lemma fold_check_arg_keeps:
  "map_of e a \<noteq> None \<Longrightarrow> map_of (fold (check_arg kw) cs e) a \<noteq> None"
proof (induction cs arbitrary: e)
  case Nil
  then show ?case by simp
next
  case (Cons d ds)
  from Cons.prems have "map_of (check_arg kw d e) a \<noteq> None"
    by (rule check_arg_keeps)
  from Cons.IH [OF this] show ?case by simp
qed

lemma check_arg_records:
  assumes "kw (fst c) = Some pv" "violates c pv"
  shows "map_of (check_arg kw c e) (fst c) \<noteq> None"
  using assms
  by (cases c; cases pv) (auto simp: check_arg_def violates_def Let_def update_conv' odd_iff_mod_2_eq_one)

lemma fold_check_arg_records:
  assumes "c \<in> set cs" "kw (fst c) = Some pv" "violates c pv"
  shows "map_of (fold (check_arg kw) cs e) (fst c) \<noteq> None"
  using assms
proof (induction cs arbitrary: e)
  case Nil
  then show ?case by simp
next
  case (Cons d ds)
  show ?case
  proof (cases "c = d")
    case True
    with Cons.prems have "map_of (check_arg kw d e) (fst c) \<noteq> None"
      by (simp add: check_arg_records)
    then show ?thesis by (simp add: fold_check_arg_keeps)
  next
    case False
    with Cons.prems have "c \<in> set ds" by simp
    from Cons.IH [OF this Cons.prems(2,3)] show ?thesis by simp
  qed
qed

text \<open>
  C2. When a supplied value breaks its row of the table (range or parity rule, or it is not
  an integer), or the supplied level is outside 0..3, \<open>update\<close> raises
  \<open>GPSDOConfigurationException\<close>; the dictionary it carries has a message for every such
  field and for the level, and the object after the call is the object before it.
\<close>

theorem update_rejects_atomically:
  assumes "(\<exists>c \<in> set CONFIG_CHECKS. \<exists>pv. kw_pll kw (fst c) = Some pv \<and> violates c pv)
           \<or> (\<exists>l. kw_level kw = Some l \<and> level_violates l)"
  shows "\<exists>errdict. update s kw = (Inl (GPSDOConfigurationException errdict), s) \<and>
           (\<forall>c \<in> set CONFIG_CHECKS. \<forall>pv. kw_pll kw (fst c) = Some pv \<longrightarrow> violates c pv
               \<longrightarrow> map_of errdict (fst c) \<noteq> None) \<and>
           (\<forall>l. kw_level kw = Some l \<longrightarrow> level_violates l \<longrightarrow> map_of errdict ''level'' \<noteq> None)"
proof -
  let ?e1 = "fold (check_arg (kw_pll kw)) CONFIG_CHECKS []"
  let ?e2 = "(case kw_level kw of
                Some l \<Rightarrow> if l < 0 \<or> l > 3
                          then AList.update ''level'' InvalidDriveLevel ?e1 else ?e1
              | None \<Rightarrow> ?e1)"
  have pll: "map_of ?e2 (fst c) \<noteq> None"
    if "c \<in> set CONFIG_CHECKS" "kw_pll kw (fst c) = Some pv" "violates c pv" for c pv
  proof -
    have "map_of ?e1 (fst c) \<noteq> None"
      using that by (rule fold_check_arg_records)
    then show ?thesis
      by (simp add: update_conv' split: option.splits)
  qed
  have lvl: "map_of ?e2 ''level'' \<noteq> None" if "kw_level kw = Some l" "level_violates l" for l
    using that by (simp add: level_violates_def update_conv')
  from assms pll lvl have "\<exists>a. map_of ?e2 a \<noteq> None" by blast
  then have ne: "?e2 \<noteq> []" by auto
  have "update s kw = (Inl (GPSDOConfigurationException ?e2), s)"
    using ne by (simp add: update_def Let_def)
  with pll lvl show ?thesis by blast
qed

theorem update_rejects_atomically_witness:
  "\<exists>errdict. update init kw_bad = (Inl (GPSDOConfigurationException errdict), init) \<and>
      map_of errdict ''n3'' \<noteq> None \<and> map_of errdict ''n2_ls'' \<noteq> None \<and>
      map_of errdict ''level'' \<noteq> None"
proof -
  let ?c3 = "(''n3'', ''Input divider N3'', 1::int, 2 ^ 19 :: int, 0::int, ''in the range of 1 to 524288'')"
  let ?c2 = "(''n2_ls'', ''Feedback divider N2_LS'', 2::int, 2 ^ 20 :: int, 2::int, ''in the range of 2 to 1048576'')"
  have m3: "?c3 \<in> set CONFIG_CHECKS" and m2: "?c2 \<in> set CONFIG_CHECKS"
    by (simp_all add: CONFIG_CHECKS_def)
  have v3: "kw_pll kw_bad (fst ?c3) = Some (PyInt 0)" "violates ?c3 (PyInt 0)"
    and v2: "kw_pll kw_bad (fst ?c2) = Some (PyInt 3)" "violates ?c2 (PyInt 3)"
    and vl: "kw_level kw_bad = Some 7" "level_violates 7"
    by (simp_all add: kw_bad_def violates_def level_violates_def)
  have "(\<exists>c \<in> set CONFIG_CHECKS. \<exists>pv. kw_pll kw_bad (fst c) = Some pv \<and> violates c pv)
           \<or> (\<exists>l. kw_level kw_bad = Some l \<and> level_violates l)"
    using vl by blast
  from update_rejects_atomically [OF this, of init]
  obtain errdict where e: "update init kw_bad = (Inl (GPSDOConfigurationException errdict), init)"
    and p: "\<forall>c \<in> set CONFIG_CHECKS. \<forall>pv. kw_pll kw_bad (fst c) = Some pv \<longrightarrow> violates c pv
               \<longrightarrow> map_of errdict (fst c) \<noteq> None"
    and l: "\<forall>l. kw_level kw_bad = Some l \<longrightarrow> level_violates l \<longrightarrow> map_of errdict ''level'' \<noteq> None"
    by blast
  from p m3 v3 have "map_of errdict (fst ?c3) \<noteq> None" by blast
  moreover from p m2 v2 have "map_of errdict (fst ?c2) \<noteq> None" by blast
  moreover from l vl have "map_of errdict ''level'' \<noteq> None" by blast
  ultimately show ?thesis using e by auto
qed

section \<open>Properties of freqplan\<close>

lemma andthen_Inr: "andthen m f = Inr y \<longleftrightarrow> (\<exists>x. m = Inr x \<and> f x = Inr y)"
  by (cases m) (simp_all add: andthen_def)

lemma andthen_Inr_simp [simp]: "andthen (Inr x) f = f x"
  by (simp add: andthen_def)

lemma andthen_Inl_simp [simp]: "andthen (Inl e) f = Inl e"
  by (simp add: andthen_def)

lemma defined_Inr: "defined m = Inr y \<longleftrightarrow> (\<exists>x. m = Inr x \<and> y = Some x)"
  by (cases m) (auto simp add: defined_def)

lemma map_of_check_freq:
  assumes "check_freq ign fr (attr, name, lmin, lmax, msg) e = Inr e'"
  shows "map_of e' a =
     (if a = attr
      then Some (case freq_item fr attr of
                   None \<Rightarrow> Some (Undefined name)
                 | Some v \<Rightarrow> if \<not> ign \<and> (v < of_int lmin \<or> v > of_int lmax)
                             then Some (FreqRange name v msg) else None)
      else map_of e a)"
  using assms
  by (auto simp add: check_freq_def update_conv' andthen_Inr split: option.splits if_splits)

lemma check_freqs_other:
  assumes "check_freqs ign fr cs e = Inr e'" "a \<notin> fst ` set cs"
  shows "map_of e' a = map_of e a"
  using assms
proof (induction cs arbitrary: e)
  case Nil
  then show ?case by simp
next
  case (Cons c cs)
  obtain attr name lmin lmax msg where c: "c = (attr, name, lmin, lmax, msg)"
    by (cases c)
  from Cons.prems(1) obtain e1 where
    e1: "check_freq ign fr c e = Inr e1" and rest: "check_freqs ign fr cs e1 = Inr e'"
    by (auto simp: andthen_Inr)
  from Cons.prems(2) have "a \<noteq> attr" "a \<notin> fst ` set cs" by (auto simp: c)
  with Cons.IH [OF rest] map_of_check_freq [OF e1 [unfolded c], of a]
  show ?case by simp
qed

lemma check_freqs_item:
  assumes "check_freqs ign fr cs e = Inr e'" "distinct (map fst cs)"
    "(attr, name, lmin, lmax, msg) \<in> set cs"
  shows "map_of e' attr =
           Some (case freq_item fr attr of
                   None \<Rightarrow> Some (Undefined name)
                 | Some v \<Rightarrow> if \<not> ign \<and> (v < of_int lmin \<or> v > of_int lmax)
                             then Some (FreqRange name v msg) else None)"
  using assms
proof (induction cs arbitrary: e)
  case Nil
  then show ?case by simp
next
  case (Cons c cs)
  from Cons.prems(1) obtain e1 where
    e1: "check_freq ign fr c e = Inr e1" and rest: "check_freqs ign fr cs e1 = Inr e'"
    by (auto simp: andthen_Inr)
  show ?case
  proof (cases "c = (attr, name, lmin, lmax, msg)")
    case True
    with Cons.prems(2) have "attr \<notin> fst ` set cs" by auto
    from check_freqs_other [OF rest this] map_of_check_freq [OF e1 [unfolded True], of attr]
    show ?thesis by simp
  next
    case False
    with Cons.prems have "distinct (map fst cs)" "(attr, name, lmin, lmax, msg) \<in> set cs"
      by auto
    from Cons.IH [OF rest this] show ?thesis .
  qed
qed

lemma freq_checks_item:
  assumes "check_freqs ign fr FREQ_CHECKS e = Inr e'"
  shows "map_of e' ''skew'' = map_of e ''skew''"
  and "map_of e' ''f3'' =
      Some (case f3 fr of
              None \<Rightarrow> Some (Undefined ''Phase detector frequency'')
            | Some v \<Rightarrow> if \<not> ign \<and> (v < 10000 \<or> v > 2000000)
                        then Some (FreqRange ''Phase detector frequency'' v ''must be in the range of 2 kHz to 2 MHz'')
                        else None)"
  and "map_of e' ''fout1'' =
      Some (case fout1 fr of
              None \<Rightarrow> Some (Undefined ''Output 1 frequency'')
            | Some v \<Rightarrow> if \<not> ign \<and> (v < 450 \<or> v > 808000000)
                        then Some (FreqRange ''Output 1 frequency'' v ''must be in the range of 450 Hz to 808 MHz'')
                        else None)"
proof -
  show "map_of e' ''skew'' = map_of e ''skew''"
    by (rule check_freqs_other [OF assms]) (simp add: FREQ_CHECKS_def)
  have d: "distinct (map fst FREQ_CHECKS)" by (simp add: FREQ_CHECKS_def)
  have "(''f3'', ''Phase detector frequency'', LIMIT_F3_MIN, LIMIT_F3_MAX,
          ''must be in the range of 2 kHz to 2 MHz'') \<in> set FREQ_CHECKS"
    by (simp add: FREQ_CHECKS_def)
  from check_freqs_item [OF assms d this]
  show "map_of e' ''f3'' =
      Some (case f3 fr of
              None \<Rightarrow> Some (Undefined ''Phase detector frequency'')
            | Some v \<Rightarrow> if \<not> ign \<and> (v < 10000 \<or> v > 2000000)
                        then Some (FreqRange ''Phase detector frequency'' v ''must be in the range of 2 kHz to 2 MHz'')
                        else None)"
    by (simp add: freq_item_def LIMIT_F3_MIN_def LIMIT_F3_MAX_def split: option.splits)
  have "(''fout1'', ''Output 1 frequency'', LIMIT_FOUT_MIN, LIMIT_FOUT_MAX,
          ''must be in the range of 450 Hz to 808 MHz'') \<in> set FREQ_CHECKS"
    by (simp add: FREQ_CHECKS_def)
  from check_freqs_item [OF assms d this]
  show "map_of e' ''fout1'' =
      Some (case fout1 fr of
              None \<Rightarrow> Some (Undefined ''Output 1 frequency'')
            | Some v \<Rightarrow> if \<not> ign \<and> (v < 450 \<or> v > 808000000)
                        then Some (FreqRange ''Output 1 frequency'' v ''must be in the range of 450 Hz to 808 MHz'')
                        else None)"
    by (simp add: freq_item_def LIMIT_FOUT_MIN_def LIMIT_FOUT_MAX_def split: option.splits)
qed

text \<open>What a returning call of freqplan has computed.\<close>

lemma freqplan_Inr:
  assumes "fst (freqplan s modify ign) = Inr (fr, errdict, errflag)"
  shows "compute_freq (if modify then freqplan_modify s else s) = Inr fr"
    and "\<exists>e. check_freqs ign fr FREQ_CHECKS
                (fold (check_undefined (if modify then freqplan_modify s else s)) CONFIG_CHECKS [])
              = Inr e
            \<and> errdict = check_skew (if modify then freqplan_modify s else s) e"
  using assms by (auto simp: freqplan_def Let_def andthen_Inr)

text \<open>Rendering a frequency of moderate size raises nothing.\<close>

lemma scale_freq_le: "\<bar>fst (scale_freq v us)\<bar> \<le> \<bar>v\<bar>"
proof (induction us arbitrary: v)
  case Nil
  show ?case by simp
next
  case (Cons u us)
  show ?case
  proof (cases "v < 1000")
    case True
    then show ?thesis by simp
  next
    case False
    then have "\<bar>v / 1000\<bar> \<le> \<bar>v\<bar>" by simp
    with Cons.IH [of "v / 1000"] False show ?thesis by simp
  qed
qed

lemma format_freq_returns:
  assumes "\<bar>v\<bar> \<le> 2 ^ 96"
  shows "\<exists>r. format_freq v = Inr r"
proof -
  obtain x u where s: "scale_freq v [''Hz'', ''kHz'', ''MHz'', ''GHz''] = (x, u)"
    by (cases "scale_freq v [''Hz'', ''kHz'', ''MHz'', ''GHz'']")
  from scale_freq_le [of v "[''Hz'', ''kHz'', ''MHz'', ''GHz'']"] s have "\<bar>x\<bar> \<le> \<bar>v\<bar>"
    by simp
  with assms have "\<bar>x\<bar> \<le> 2 ^ 96" by simp
  moreover have "(2::rat) ^ 96 < 2 ^ 1024 - 2 ^ 970" by simp
  ultimately have "\<not> (\<bar>x\<bar> \<ge> 2 ^ 1024 - 2 ^ 970)" by linarith
  with s show ?thesis by (simp add: format_freq_def)
qed

lemma check_freq_returns:
  assumes "\<And>v. freq_item fr (fst c) = Some v \<Longrightarrow> \<bar>v\<bar> \<le> 2 ^ 96"
  shows "\<exists>e'. check_freq ign fr c e = Inr e'"
proof -
  obtain attr name lmin lmax msg where c: "c = (attr, name, lmin, lmax, msg)"
    by (cases c)
  show ?thesis
  proof (cases "freq_item fr attr")
    case None
    then show ?thesis by (simp add: check_freq_def c)
  next
    case (Some v)
    with assms have "\<bar>v\<bar> \<le> 2 ^ 96" by (simp add: c)
    from format_freq_returns [OF this] obtain r where "format_freq v = Inr r" ..
    with Some show ?thesis by (simp add: check_freq_def c)
  qed
qed

lemma check_freqs_returns:
  assumes "\<forall>c \<in> set cs. \<forall>v. freq_item fr (fst c) = Some v \<longrightarrow> \<bar>v\<bar> \<le> 2 ^ 96"
  shows "\<exists>e'. check_freqs ign fr cs e = Inr e'"
  using assms
proof (induction cs arbitrary: e)
  case Nil
  show ?case by simp
next
  case (Cons c cs)
  have "\<exists>e1. check_freq ign fr c e = Inr e1"
    using Cons.prems by (intro check_freq_returns) simp
  then obtain e1 where e1: "check_freq ign fr c e = Inr e1" ..
  have "\<exists>e'. check_freqs ign fr cs e1 = Inr e'"
    using Cons.prems by (intro Cons.IH) simp
  with e1 show ?case by simp
qed

lemma modify_keeps:
  "fin (freqplan_modify s) = fin s" "n3 (freqplan_modify s) = n3 s"
  "n2_hs (freqplan_modify s) = n2_hs s" "n2_ls (freqplan_modify s) = n2_ls s"
  "n1_hs (freqplan_modify s) = n1_hs s" "skew (freqplan_modify s) = skew s"
  "bw (freqplan_modify s) = bw s"
  by (simp_all add: freqplan_modify_def Let_def)

lemma modify_keeps_nc1: "nc1_ls s = Some n \<Longrightarrow> nc1_ls (freqplan_modify s) = Some n"
  by (simp add: freqplan_modify_def Let_def)

lemma modify_keeps_nc2: "nc2_ls s = Some n \<Longrightarrow> nc2_ls (freqplan_modify s) = Some n"
  by (simp add: freqplan_modify_def Let_def)

lemma modify_nc1_nonzero: "nc1_ls s \<noteq> Some 0 \<Longrightarrow> nc2_ls s \<noteq> Some 0 \<Longrightarrow> nc1_ls (freqplan_modify s) \<noteq> Some 0"
  by (simp add: freqplan_modify_def Let_def)

lemma modify_nc2_nonzero: "nc1_ls s \<noteq> Some 0 \<Longrightarrow> nc2_ls s \<noteq> Some 0 \<Longrightarrow> nc2_ls (freqplan_modify s) \<noteq> Some 0"
  by (simp add: freqplan_modify_def Let_def)

lemma compute_freq_returns:
  assumes "fin s \<noteq> Some 0" "n3 s \<noteq> Some 0" "n2_hs s \<noteq> Some 0" "n2_ls s \<noteq> Some 0"
     "n1_hs s \<noteq> Some 0" "nc1_ls s \<noteq> Some 0" "nc2_ls s \<noteq> Some 0"
  shows "\<exists>fr. compute_freq s = Inr fr"
  using assms
  by (auto simp: compute_freq_def defined_def Fraction_def truediv_def py_mod_def Let_def split: option.splits)

lemma map_of_check_undefined:
  "map_of (check_undefined s (attr, name, lmin, lmax, ev, msg) e) a =
     (if a = attr then Some (if getattr s attr = None then Some (Undefined name) else None)
      else map_of e a)"
  by (simp add: check_undefined_def update_conv')

lemma map_of_check_skew_other:
  "a \<noteq> ''skew'' \<Longrightarrow> map_of (check_skew s e) a = map_of e a"
  by (simp add: check_skew_def Let_def update_conv' split: option.splits)

lemma map_of_check_skew:
  assumes "skew s = Some k" "nc2_ls s = Some n" "map_of e ''skew'' = Some None"
  shows "map_of (check_skew s e) ''skew'' =
           Some (if k > max (n - 2) 0 then Some (SkewRange (max (n - 2) 0)) else None)"
  using assms by (simp add: check_skew_def Let_def update_conv')

lemma undefined_skew:
  "map_of (fold (check_undefined s) CONFIG_CHECKS []) ''skew'' =
     Some (if skew s = None then Some (Undefined ''SKEW'') else None)"
  by (simp add: CONFIG_CHECKS_def map_of_check_undefined getattr_def)

lemma compute_freq_f3:
  assumes "compute_freq s = Inr fr" "fin s = Some a" "n3 s = Some b"
  shows "b \<noteq> 0 \<and> f3 fr = Some (of_int a / of_int b)"
  using assms
  by (auto simp: compute_freq_def andthen_Inr defined_Inr Fraction_def Let_def split: if_splits)

lemma compute_freq_phaseangle:
  assumes "compute_freq s = Inr fr" "skew s = Some k" "nc2_ls s = Some n"
  shows "n \<noteq> 0 \<and> phaseangle fr = Some (of_int (k mod n) / of_int n)"
  using assms
  by (auto simp: compute_freq_def andthen_Inr defined_Inr Fraction_def py_mod_def Let_def split: if_splits)


lemma abs_div_of_int_le:
  assumes "k \<noteq> 0"
  shows "\<bar>x / of_int k\<bar> \<le> \<bar>x :: rat\<bar>"
proof -
  from assms have "1 \<le> \<bar>k\<bar>" by simp
  then have "(1::rat) \<le> \<bar>of_int k\<bar>" by (metis of_int_1 of_int_abs of_int_le_iff)
  then have "\<bar>x\<bar> / \<bar>of_int k\<bar> \<le> \<bar>x\<bar> / 1"
    by (intro divide_left_mono) simp_all
  then show ?thesis by (simp add: abs_divide)
qed

lemma abs_of_int_le: "\<bar>a\<bar> \<le> 2 ^ 32 \<Longrightarrow> \<bar>of_int a :: rat\<bar> \<le> 2 ^ 32"
  by (metis of_int_abs of_int_le_iff of_int_numeral of_int_power)

lemma abs_prod3_le:
  assumes "\<bar>f\<bar> \<le> 2 ^ 32" "\<bar>a\<bar> \<le> 2 ^ 32" "\<bar>b\<bar> \<le> 2 ^ 32"
  shows "\<bar>f * a * b :: rat\<bar> \<le> 2 ^ 96"
proof -
  have "\<bar>f\<bar> * \<bar>a\<bar> \<le> 2 ^ 32 * 2 ^ 32"
    using assms by (intro mult_mono) simp_all
  then have "\<bar>f\<bar> * \<bar>a\<bar> * \<bar>b\<bar> \<le> (2 ^ 32 * 2 ^ 32) * 2 ^ 32"
    using assms by (intro mult_mono) simp_all
  then show ?thesis by (simp add: abs_mult)
qed

text \<open>The four checked frequencies of an object of moderate settings.\<close>

lemma compute_freq_moderate:
  assumes c: "compute_freq s = Inr fr"
    and b0: "\<forall>v. Some v \<in> {fin s, n2_hs s, n2_ls s} \<longrightarrow> \<bar>v\<bar> \<le> 2 ^ 32"
  shows "f3 fr = Some v \<Longrightarrow> \<bar>v\<bar> \<le> 2 ^ 32"
    and "fosc fr = Some v \<Longrightarrow> \<bar>v\<bar> \<le> 2 ^ 96"
    and "fout1 fr = Some v \<Longrightarrow> \<bar>v\<bar> \<le> 2 ^ 96"
    and "fout2 fr = Some v \<Longrightarrow> \<bar>v\<bar> \<le> 2 ^ 96"
proof -
  from b0 have b: "\<And>v. Some v \<in> {fin s, n2_hs s, n2_ls s} \<Longrightarrow> \<bar>v\<bar> \<le> 2 ^ 32"
    by blast
  from c obtain f3' fout1' fout2' where
    f3: "(case (fin s, n3 s) of (Some a, Some b) \<Rightarrow> defined (Fraction a b) | _ \<Rightarrow> Inr None)
           = Inr f3'" "f3 fr = f3'"
    and fosc: "fosc fr = (case (f3', n2_hs s, n2_ls s) of
                    (Some f, Some a, Some b) \<Rightarrow> Some (f * of_int a * of_int b)
                  | _ \<Rightarrow> None)"
    and fout1: "(case (fosc fr, n1_hs s, nc1_ls s) of
                (Some f, Some a, Some b) \<Rightarrow> defined (truediv f (of_int (a * b)))
              | _ \<Rightarrow> Inr None) = Inr fout1'" "fout1 fr = fout1'"
    and fout2: "(case (fosc fr, n1_hs s, nc2_ls s) of
                (Some f, Some a, Some b) \<Rightarrow> defined (truediv f (of_int (a * b)))
              | _ \<Rightarrow> Inr None) = Inr fout2'" "fout2 fr = fout2'"
    by (auto simp: compute_freq_def andthen_Inr Let_def)
  have f3b: "\<bar>v\<bar> \<le> 2 ^ 32" if "f3 fr = Some v" for v
  proof -
    from that f3 obtain a k where "fin s = Some a" "k \<noteq> 0" "v = of_int a / of_int k"
      by (auto simp: defined_Inr Fraction_def split: option.splits if_splits)
    with b [of a] abs_div_of_int_le [of k "of_int a"] abs_of_int_le [of a]
    show ?thesis by simp
  qed
  have foscb: "\<bar>v\<bar> \<le> 2 ^ 96" if "fosc fr = Some v" for v
  proof -
    from that fosc f3(2) obtain f a k where
      h: "f3 fr = Some f" "n2_hs s = Some a" "n2_ls s = Some k"
      and v: "v = f * of_int a * of_int k"
      by (auto split: option.splits)
    from h(1) have 1: "\<bar>f\<bar> \<le> 2 ^ 32" by (rule f3b)
    from h(2) have 2: "\<bar>of_int a :: rat\<bar> \<le> 2 ^ 32" by (intro abs_of_int_le b) simp
    from h(3) have 3: "\<bar>of_int k :: rat\<bar> \<le> 2 ^ 32" by (intro abs_of_int_le b) simp
    show ?thesis unfolding v by (rule abs_prod3_le [OF 1 2 3])
  qed
  have fout1b: "\<bar>v\<bar> \<le> 2 ^ 96" if "fout1 fr = Some v" for v
  proof -
    from that fout1 obtain f a k where
      h: "fosc fr = Some f" "a \<noteq> 0" "k \<noteq> 0" and v: "v = f / (of_int a * of_int k)"
      by (auto simp: defined_Inr truediv_def split: option.splits if_splits)
    from h(2,3) have "a * k \<noteq> 0" by simp
    from abs_div_of_int_le [OF this, of f] have "\<bar>v\<bar> \<le> \<bar>f\<bar>" by (simp add: v)
    with foscb [OF h(1)] show ?thesis by simp
  qed
  have fout2b: "\<bar>v\<bar> \<le> 2 ^ 96" if "fout2 fr = Some v" for v
  proof -
    from that fout2 obtain f a k where
      h: "fosc fr = Some f" "a \<noteq> 0" "k \<noteq> 0" and v: "v = f / (of_int a * of_int k)"
      by (auto simp: defined_Inr truediv_def split: option.splits if_splits)
    from h(2,3) have "a * k \<noteq> 0" by simp
    from abs_div_of_int_le [OF this, of f] have "\<bar>v\<bar> \<le> \<bar>f\<bar>" by (simp add: v)
    with foscb [OF h(1)] show ?thesis by simp
  qed
  show "f3 fr = Some v \<Longrightarrow> \<bar>v\<bar> \<le> 2 ^ 32" by (rule f3b)
  show "fosc fr = Some v \<Longrightarrow> \<bar>v\<bar> \<le> 2 ^ 96" by (rule foscb)
  show "fout1 fr = Some v \<Longrightarrow> \<bar>v\<bar> \<le> 2 ^ 96" by (rule fout1b)
  show "fout2 fr = Some v \<Longrightarrow> \<bar>v\<bar> \<le> 2 ^ 96" by (rule fout2b)
qed

lemma freqplan_returns:
  assumes "fin s \<noteq> Some 0" "n3 s \<noteq> Some 0" "n2_hs s \<noteq> Some 0" "n2_ls s \<noteq> Some 0"
     "n1_hs s \<noteq> Some 0" "nc1_ls s \<noteq> Some 0" "nc2_ls s \<noteq> Some 0"
    and b: "\<forall>v. Some v \<in> {fin s, n2_hs s, n2_ls s} \<longrightarrow> \<bar>v\<bar> \<le> 2 ^ 32"
  shows "\<exists>r. fst (freqplan s modify ign) = Inr r"
proof -
  let ?s = "if modify then freqplan_modify s else s"
  have "\<exists>fr. compute_freq ?s = Inr fr"
    using assms(1-7)
    by (intro compute_freq_returns) (simp_all add: modify_keeps modify_nc1_nonzero modify_nc2_nonzero)
  then obtain fr where fr: "compute_freq ?s = Inr fr" ..
  have b': "\<forall>v. Some v \<in> {fin ?s, n2_hs ?s, n2_ls ?s} \<longrightarrow> \<bar>v\<bar> \<le> 2 ^ 32"
    using b by (cases modify) (simp_all add: modify_keeps)
  note m = compute_freq_moderate [OF fr b']
  have q: "\<bar>v\<bar> \<le> 2 ^ 96" if "c \<in> set FREQ_CHECKS" "freq_item fr (fst c) = Some v" for c v
  proof -
    from that(1) have "fst c \<in> {''f3'', ''fosc'', ''fout1'', ''fout2''}"
      by (auto simp: FREQ_CHECKS_def)
    with that(2) consider "f3 fr = Some v" | "fosc fr = Some v" | "fout1 fr = Some v"
      | "fout2 fr = Some v"
      by (auto simp: freq_item_def)
    then show ?thesis
    proof cases
      case 1
      from m(1) [OF this] show ?thesis by simp
    next
      case 2
      then show ?thesis by (rule m(2))
    next
      case 3
      then show ?thesis by (rule m(3))
    next
      case 4
      then show ?thesis by (rule m(4))
    qed
  qed
  have "\<forall>c \<in> set FREQ_CHECKS. \<forall>v. freq_item fr (fst c) = Some v \<longrightarrow> \<bar>v\<bar> \<le> 2 ^ 96"
    using q by blast
  from check_freqs_returns [OF this]
  obtain e where "check_freqs ign fr FREQ_CHECKS (fold (check_undefined ?s) CONFIG_CHECKS []) = Inr e"
    by blast
  with fr show ?thesis
    by (auto simp: freqplan_def Let_def)
qed

text \<open>
  C3 (amended). With \<open>fin\<close> and \<open>n3\<close> defined, \<open>n3\<close> not zero and \<open>ignore_freq_limits\<close>
  false, \<open>freqplan\<close> returns when no other setting is zero and \<open>fin\<close>, \<open>n2_hs\<close> and
  \<open>n2_ls\<close> are at most \<open>2^32\<close> in magnitude (so that every message can be rendered), and
  whenever it returns,
  \<open>f3\<close> is the exact quotient \<open>fin / n3\<close> and the report has a range message for
  \<open>f3\<close> if and only if \<open>f3 < 10000\<close> or \<open>f3 > 2000000\<close>: the lower limit of the source is
  \<open>LIMIT_F3_MIN = 10000\<close> (10 kHz, chosen by trial), not the 2 kHz of the datasheet.
\<close>

theorem f3_flagged_iff:
  assumes "fin s = Some a" "n3 s = Some b" "b \<noteq> 0"
  shows "(Some 0 \<notin> {fin s, n2_hs s, n2_ls s, n1_hs s, nc1_ls s, nc2_ls s}
            \<and> (\<forall>v. Some v \<in> {fin s, n2_hs s, n2_ls s} \<longrightarrow> \<bar>v\<bar> \<le> 2 ^ 32)
            \<longrightarrow> (\<exists>r. fst (freqplan s modify False) = Inr r))
       \<and> (\<forall>fr errdict errflag. fst (freqplan s modify False) = Inr (fr, errdict, errflag) \<longrightarrow>
            f3 fr = Some (of_int a / of_int b) \<and>
            map_of errdict ''f3'' =
              Some (if of_int a / of_int b < (10000::rat) \<or> of_int a / of_int b > (2000000::rat)
                    then Some (FreqRange ''Phase detector frequency'' (of_int a / of_int b)
                                 ''must be in the range of 2 kHz to 2 MHz'')
                    else None))"
proof (intro conjI impI allI)
  assume "Some 0 \<notin> {fin s, n2_hs s, n2_ls s, n1_hs s, nc1_ls s, nc2_ls s}
            \<and> (\<forall>v. Some v \<in> {fin s, n2_hs s, n2_ls s} \<longrightarrow> \<bar>v\<bar> \<le> 2 ^ 32)"
  with assms show "\<exists>r. fst (freqplan s modify False) = Inr r"
    by (intro freqplan_returns) auto
next
  fix fr errdict errflag
  assume r: "fst (freqplan s modify False) = Inr (fr, errdict, errflag)"
  let ?s = "if modify then freqplan_modify s else s"
  have "fin ?s = Some a" "n3 ?s = Some b"
    using assms by (simp_all add: modify_keeps)
  with freqplan_Inr(1) [OF r] have f: "f3 fr = Some (of_int a / of_int b)"
    using compute_freq_f3 by blast
  then show "f3 fr = Some (of_int a / of_int b)" .
  from freqplan_Inr(2) [OF r] obtain e where
    e: "check_freqs False fr FREQ_CHECKS (fold (check_undefined ?s) CONFIG_CHECKS []) = Inr e"
    and d: "errdict = check_skew ?s e"
    by blast
  show "map_of errdict ''f3'' =
              Some (if of_int a / of_int b < (10000::rat) \<or> of_int a / of_int b > (2000000::rat)
                    then Some (FreqRange ''Phase detector frequency'' (of_int a / of_int b)
                                 ''must be in the range of 2 kHz to 2 MHz'')
                    else None)"
    unfolding d
    by (simp add: map_of_check_skew_other freq_checks_item(2) [OF e] f)
qed

theorem f3_flagged_iff_witness:
  "\<exists>fr errdict errflag. fst (freqplan s_edge False False) = Inr (fr, errdict, errflag) \<and>
      f3 fr = Some 10000 \<and> map_of errdict ''f3'' = Some None"
proof -
  have h: "fin s_edge = Some 10000000" "n3 s_edge = Some 1000" "(1000::int) \<noteq> 0"
    and z: "Some 0 \<notin> {fin s_edge, n2_hs s_edge, n2_ls s_edge, n1_hs s_edge, nc1_ls s_edge, nc2_ls s_edge}
            \<and> (\<forall>v. Some v \<in> {fin s_edge, n2_hs s_edge, n2_ls s_edge} \<longrightarrow> \<bar>v\<bar> \<le> 2 ^ 32)"
    by (auto simp add: s_edge_def init_def)
  note t = f3_flagged_iff [OF h, of False]
  from t z obtain r where r: "fst (freqplan s_edge False False) = Inr r" by blast
  obtain fr errdict errflag where "r = (fr, errdict, errflag)" by (cases r)
  with r t show ?thesis by auto
qed

lemma cf_inside:
  "compute_freq s_inside =
     Inr \<lparr>f3 = Some 5000, fosc = Some 5000000000, fout1 = Some 625000000,
           fout2 = Some 625000000, phaseres = Some (1 / 1250000000), phase = Some 0,
           phaseangle = Some 0, phaseangleres = Some (1 / 2)\<rparr>"
  by (simp add: compute_freq_def s_inside_def init_def defined_def Fraction_def truediv_def py_mod_def)

lemma undef_inside:
  "fold (check_undefined s_inside) CONFIG_CHECKS [] =
     [(''fin'', None), (''n3'', None), (''n2_hs'', None), (''n2_ls'', None),
      (''n1_hs'', None), (''nc1_ls'', None), (''nc2_ls'', None), (''skew'', None),
      (''bw'', None)]"
  by (simp add: CONFIG_CHECKS_def check_undefined_def getattr_def s_inside_def init_def)

lemma format_inside: "format_freq 5000 = Inr (5, ''kHz'')"
  by (simp add: format_freq_def)

lemma chk_inside:
  "check_freqs False fr_inside FREQ_CHECKS
     [(''fin'', None), (''n3'', None), (''n2_hs'', None), (''n2_ls'', None),
      (''n1_hs'', None), (''nc1_ls'', None), (''nc2_ls'', None), (''skew'', None),
      (''bw'', None)] =
   Inr
     [(''fin'', None), (''n3'', None), (''n2_hs'', None), (''n2_ls'', None),
      (''n1_hs'', None), (''nc1_ls'', None), (''nc2_ls'', None), (''skew'', None),
      (''bw'', None),
      (''f3'', Some (FreqRange ''Phase detector frequency'' 5000
                            ''must be in the range of 2 kHz to 2 MHz'')),
      (''fosc'', None), (''fout1'', None), (''fout2'', None)]"
  by (simp add: FREQ_CHECKS_def check_freq_def freq_item_def fr_inside_def format_inside
        LIMIT_F3_MIN_def LIMIT_F3_MAX_def LIMIT_FOSC_MIN_def LIMIT_FOSC_MAX_def
        LIMIT_FOUT_MIN_def LIMIT_FOUT_MAX_def)

lemma skew_inside:
  "check_skew s_inside
     [(''fin'', None), (''n3'', None), (''n2_hs'', None), (''n2_ls'', None),
      (''n1_hs'', None), (''nc1_ls'', None), (''nc2_ls'', None), (''skew'', None),
      (''bw'', None),
      (''f3'', Some (FreqRange ''Phase detector frequency'' 5000
                            ''must be in the range of 2 kHz to 2 MHz'')),
      (''fosc'', None), (''fout1'', None), (''fout2'', None)] =
     [(''fin'', None), (''n3'', None), (''n2_hs'', None), (''n2_ls'', None),
      (''n1_hs'', None), (''nc1_ls'', None), (''nc2_ls'', None), (''skew'', None),
      (''bw'', None),
      (''f3'', Some (FreqRange ''Phase detector frequency'' 5000
                            ''must be in the range of 2 kHz to 2 MHz'')),
      (''fosc'', None), (''fout1'', None), (''fout2'', None)]"
  by (simp add: check_skew_def s_inside_def init_def)

text \<open>
  C3 as stated fails: with \<open>fin = 10000\<close> and \<open>n3 = 2\<close> the phase detector frequency is
  5000 Hz, inside 2 kHz..2 MHz, and \<open>freqplan\<close> reports a range message for \<open>f3\<close> (and for
  nothing else).
\<close>

theorem f3_datasheet_counterexample:
  "fst (freqplan s_inside False False) =
     Inr (\<lparr>f3 = Some 5000, fosc = Some 5000000000, fout1 = Some 625000000,
           fout2 = Some 625000000, phaseres = Some (1 / 1250000000), phase = Some 0,
           phaseangle = Some 0, phaseangleres = Some (1 / 2)\<rparr>,
          [(''fin'', None), (''n3'', None), (''n2_hs'', None), (''n2_ls'', None),
           (''n1_hs'', None), (''nc1_ls'', None), (''nc2_ls'', None), (''skew'', None),
           (''bw'', None),
           (''f3'', Some (FreqRange ''Phase detector frequency'' 5000
                            ''must be in the range of 2 kHz to 2 MHz'')),
           (''fosc'', None), (''fout1'', None), (''fout2'', None)],
          True)
   \<and> \<not> ((5000::rat) < 2000 \<or> (5000::rat) > 2000000)"
  by (simp add: freqplan_def cf_inside undef_inside chk_inside [unfolded fr_inside_def]
        skew_inside)

text \<open>
  C4. With \<open>skew\<close> and \<open>nc2_ls\<close> defined, \<open>freqplan\<close> returns when no setting is zero
  and \<open>fin\<close>, \<open>n2_hs\<close> and \<open>n2_ls\<close> are at most \<open>2^32\<close> in magnitude (so that every
  message can be rendered), and whenever it returns, the report has a message for \<open>skew\<close> if and only if
  \<open>skew > max(nc2_ls - 2, 0)\<close>, whatever \<open>ignore_freq_limits\<close> is.
\<close>

theorem skew_error_iff:
  assumes "skew s = Some k" "nc2_ls s = Some n"
  shows "(Some 0 \<notin> {fin s, n3 s, n2_hs s, n2_ls s, n1_hs s, nc1_ls s, nc2_ls s}
            \<and> (\<forall>v. Some v \<in> {fin s, n2_hs s, n2_ls s} \<longrightarrow> \<bar>v\<bar> \<le> 2 ^ 32)
            \<longrightarrow> (\<exists>r. fst (freqplan s modify ign) = Inr r))
       \<and> (\<forall>fr errdict errflag. fst (freqplan s modify ign) = Inr (fr, errdict, errflag) \<longrightarrow>
            map_of errdict ''skew'' =
              Some (if k > max (n - 2) 0 then Some (SkewRange (max (n - 2) 0)) else None))"
proof (intro conjI impI allI)
  assume "Some 0 \<notin> {fin s, n3 s, n2_hs s, n2_ls s, n1_hs s, nc1_ls s, nc2_ls s}
            \<and> (\<forall>v. Some v \<in> {fin s, n2_hs s, n2_ls s} \<longrightarrow> \<bar>v\<bar> \<le> 2 ^ 32)"
  then show "\<exists>r. fst (freqplan s modify ign) = Inr r"
    by (intro freqplan_returns) auto
next
  fix fr errdict errflag
  assume r: "fst (freqplan s modify ign) = Inr (fr, errdict, errflag)"
  let ?s = "if modify then freqplan_modify s else s"
  have d: "skew ?s = Some k" "nc2_ls ?s = Some n"
    using assms by (simp_all add: modify_keeps modify_keeps_nc2)
  from freqplan_Inr(2) [OF r] obtain e where
    e: "check_freqs ign fr FREQ_CHECKS (fold (check_undefined ?s) CONFIG_CHECKS []) = Inr e"
    and c: "errdict = check_skew ?s e"
    by blast
  have "map_of e ''skew'' = Some None"
    using d by (simp add: freq_checks_item(1) [OF e] undefined_skew)
  from map_of_check_skew [OF d this]
  show "map_of errdict ''skew'' =
              Some (if k > max (n - 2) 0 then Some (SkewRange (max (n - 2) 0)) else None)"
    unfolding c .
qed

theorem skew_error_iff_witness:
  "(\<exists>fr errdict errflag. fst (freqplan (s_skew 3 5) False True) = Inr (fr, errdict, errflag)
        \<and> map_of errdict ''skew'' = Some None)
   \<and> (\<exists>fr errdict errflag. fst (freqplan (s_skew 4 5) False True) = Inr (fr, errdict, errflag)
        \<and> map_of errdict ''skew'' = Some (Some (SkewRange 3)))
   \<and> (\<exists>fr errdict errflag. fst (freqplan (s_skew 1 1) False False) = Inr (fr, errdict, errflag)
        \<and> map_of errdict ''skew'' = Some (Some (SkewRange 0)))"
proof -
  have w: "\<exists>fr errdict errflag. fst (freqplan (s_skew k n) False ign) = Inr (fr, errdict, errflag)
        \<and> map_of errdict ''skew'' = Some (if k > max (n - 2) 0 then Some (SkewRange (max (n - 2) 0)) else None)"
    if "n \<noteq> 0" for k n ign
  proof -
    have h: "skew (s_skew k n) = Some k" "nc2_ls (s_skew k n) = Some n"
      and z: "Some 0 \<notin> {fin (s_skew k n), n3 (s_skew k n), n2_hs (s_skew k n), n2_ls (s_skew k n),
                n1_hs (s_skew k n), nc1_ls (s_skew k n), nc2_ls (s_skew k n)}
          \<and> (\<forall>v. Some v \<in> {fin (s_skew k n), n2_hs (s_skew k n), n2_ls (s_skew k n)}
                 \<longrightarrow> \<bar>v\<bar> \<le> 2 ^ 32)"
      using that by (auto simp add: s_skew_def s_edge_def init_def)
    note t = skew_error_iff [OF h, of False ign]
    from t z obtain r where r: "fst (freqplan (s_skew k n) False ign) = Inr r" by blast
    obtain fr errdict errflag where "r = (fr, errdict, errflag)" by (cases r)
    with r t show ?thesis by auto
  qed
  from w [of 5 3 True] w [of 5 4 True] w [of 1 1 False] show ?thesis by simp
qed

text \<open>
  C7. For \<open>fin = 10000000, n3 = 1, n2_hs = 4, n2_ls = 1024, n1_hs = 4, nc1_ls = 1,
  nc2_ls = 1\<close>, \<open>freqplan\<close> returns \<open>fosc = 40960000000\<close> and \<open>fout1 = 10240000000\<close>, with a
  range message for \<open>fout1\<close> when \<open>ignore_freq_limits\<close> is false and none when it is true.
\<close>

theorem exactness_example:
  assumes "fin s = Some 10000000" "n3 s = Some 1" "n2_hs s = Some 4" "n2_ls s = Some 1024"
    "n1_hs s = Some 4" "nc1_ls s = Some 1" "nc2_ls s = Some 1"
  shows "\<exists>fr errdict errflag. fst (freqplan s modify ign) = Inr (fr, errdict, errflag) \<and>
           fosc fr = Some 40960000000 \<and> fout1 fr = Some 10240000000 \<and>
           map_of errdict ''fout1'' =
             Some (if ign then None
                   else Some (FreqRange ''Output 1 frequency'' 10240000000
                                ''must be in the range of 450 Hz to 808 MHz''))"
proof -
  let ?s = "if modify then freqplan_modify s else s"
  have d: "fin ?s = Some 10000000" "n3 ?s = Some 1" "n2_hs ?s = Some 4" "n2_ls ?s = Some 1024"
    "n1_hs ?s = Some 4" "nc1_ls ?s = Some 1" "nc2_ls ?s = Some 1"
    using assms by (simp_all add: modify_keeps modify_keeps_nc1 modify_keeps_nc2)
  from assms have "\<exists>r. fst (freqplan s modify ign) = Inr r"
    by (intro freqplan_returns) auto
  then obtain fr errdict errflag where r: "fst (freqplan s modify ign) = Inr (fr, errdict, errflag)"
    by auto
  have c: "fosc fr = Some 40960000000 \<and> fout1 fr = Some 10240000000"
    using freqplan_Inr(1) [OF r] d
    by (auto simp: compute_freq_def andthen_Inr defined_Inr Fraction_def truediv_def Let_def
          split: if_splits)
  from freqplan_Inr(2) [OF r] obtain e where
    e: "check_freqs ign fr FREQ_CHECKS (fold (check_undefined ?s) CONFIG_CHECKS []) = Inr e"
    and q: "errdict = check_skew ?s e"
    by blast
  have "map_of errdict ''fout1'' =
             Some (if ign then None
                   else Some (FreqRange ''Output 1 frequency'' 10240000000
                                ''must be in the range of 450 Hz to 808 MHz''))"
    unfolding q
    using c by (simp add: map_of_check_skew_other freq_checks_item(3) [OF e])
  with r c show ?thesis by blast
qed

theorem exactness_example_witness:
  "(\<exists>fr errdict errflag. fst (freqplan s_exact False False) = Inr (fr, errdict, errflag) \<and>
           fosc fr = Some 40960000000 \<and> fout1 fr = Some 10240000000 \<and>
           map_of errdict ''fout1'' =
             Some (Some (FreqRange ''Output 1 frequency'' 10240000000
                                ''must be in the range of 450 Hz to 808 MHz'')))
   \<and> (\<exists>fr errdict errflag. fst (freqplan s_exact False True) = Inr (fr, errdict, errflag) \<and>
           fosc fr = Some 40960000000 \<and> fout1 fr = Some 10240000000 \<and>
           map_of errdict ''fout1'' = Some None)"
proof -
  have h: "fin s_exact = Some 10000000" "n3 s_exact = Some 1" "n2_hs s_exact = Some 4"
    "n2_ls s_exact = Some 1024" "n1_hs s_exact = Some 4" "nc1_ls s_exact = Some 1"
    "nc2_ls s_exact = Some 1"
    by (simp_all add: s_exact_def init_def)
  from exactness_example [OF h, of False False] exactness_example [OF h, of False True]
  show ?thesis by simp
qed

text \<open>
  C8. With \<open>skew\<close> and \<open>nc2_ls\<close> defined and \<open>nc2_ls \<ge> 1\<close>, \<open>freqplan\<close> returns when no
  other setting is zero and \<open>fin\<close>, \<open>n2_hs\<close> and \<open>n2_ls\<close> are at most \<open>2^32\<close> in
  magnitude (so that every message can be rendered), and whenever it returns, \<open>phaseangle\<close> is the exact rational
  \<open>(skew mod nc2_ls) / nc2_ls\<close>, which lies in [0, 1).
\<close>

theorem phaseangle_wraps:
  assumes "skew s = Some k" "nc2_ls s = Some n" "1 \<le> n"
  shows "(Some 0 \<notin> {fin s, n3 s, n2_hs s, n2_ls s, n1_hs s, nc1_ls s}
            \<and> (\<forall>v. Some v \<in> {fin s, n2_hs s, n2_ls s} \<longrightarrow> \<bar>v\<bar> \<le> 2 ^ 32)
            \<longrightarrow> (\<exists>r. fst (freqplan s modify ign) = Inr r))
       \<and> (\<forall>fr errdict errflag. fst (freqplan s modify ign) = Inr (fr, errdict, errflag) \<longrightarrow>
            phaseangle fr = Some (of_int (k mod n) / of_int n) \<and>
            (0::rat) \<le> of_int (k mod n) / of_int n \<and> of_int (k mod n) / of_int n < (1::rat))"
proof (intro conjI impI allI)
  assume "Some 0 \<notin> {fin s, n3 s, n2_hs s, n2_ls s, n1_hs s, nc1_ls s}
            \<and> (\<forall>v. Some v \<in> {fin s, n2_hs s, n2_ls s} \<longrightarrow> \<bar>v\<bar> \<le> 2 ^ 32)"
  with assms show "\<exists>r. fst (freqplan s modify ign) = Inr r"
    by (intro freqplan_returns) auto
next
  fix fr errdict errflag
  assume r: "fst (freqplan s modify ign) = Inr (fr, errdict, errflag)"
  let ?s = "if modify then freqplan_modify s else s"
  have "skew ?s = Some k" "nc2_ls ?s = Some n"
    using assms by (simp_all add: modify_keeps modify_keeps_nc2)
  with freqplan_Inr(1) [OF r] show "phaseangle fr = Some (of_int (k mod n) / of_int n)"
    using compute_freq_phaseangle by blast
  from assms(3) have "0 \<le> k mod n" "k mod n < n" by simp_all
  with assms(3) show "(0::rat) \<le> of_int (k mod n) / of_int n"
    and "of_int (k mod n) / of_int n < (1::rat)"
    by simp_all
qed

theorem phaseangle_wraps_witness:
  "\<exists>fr errdict errflag. fst (freqplan (s_skew 7 5) False False) = Inr (fr, errdict, errflag) \<and>
      phaseangle fr = Some (2 / 5)"
proof -
  have h: "skew (s_skew 7 5) = Some 7" "nc2_ls (s_skew 7 5) = Some 5" "(1::int) \<le> 5"
    and z: "Some 0 \<notin> {fin (s_skew 7 5), n3 (s_skew 7 5), n2_hs (s_skew 7 5), n2_ls (s_skew 7 5),
                n1_hs (s_skew 7 5), nc1_ls (s_skew 7 5)}
          \<and> (\<forall>v. Some v \<in> {fin (s_skew 7 5), n2_hs (s_skew 7 5), n2_ls (s_skew 7 5)}
                 \<longrightarrow> \<bar>v\<bar> \<le> 2 ^ 32)"
    by (auto simp add: s_skew_def s_edge_def init_def)
  note t = phaseangle_wraps [OF h, of False False]
  from t z obtain r where r: "fst (freqplan (s_skew 7 5) False False) = Inr r" by blast
  obtain fr errdict errflag where "r = (fr, errdict, errflag)" by (cases r)
  with r t show ?thesis by auto
qed

section \<open>Properties of the register codec\<close>

lemma zeros60:
  "replicate 60 (0::int) =
     [0,0,0,0,0,0,0,0,0,0, 0,0,0,0,0,0,0,0,0,0, 0,0,0,0,0,0,0,0,0,0,
      0,0,0,0,0,0,0,0,0,0, 0,0,0,0,0,0,0,0,0,0, 0,0,0,0,0,0,0,0,0,0]"
  by (simp add: numeral_eq_Suc)

lemma zeros40:
  "replicate 40 (0::byte) =
     [0,0,0,0,0,0,0,0,0,0, 0,0,0,0,0,0,0,0,0,0, 0,0,0,0,0,0,0,0,0,0, 0,0,0,0,0,0,0,0,0,0]"
  by (simp add: numeral_eq_Suc)

lemma uint_byte_lt: "uint (w :: byte) < 256"
  using uint_lt2p [of w] by simp

lemma byte_of_uint: "(word_of_int (uint (w :: byte)) :: byte) = w"
  by simp

lemma three_bytes:
  assumes "0 \<le> v" "v < 2 ^ 24"
  shows "uint (word_of_int v :: byte) + 256 * uint (word_of_int (v div 256) :: byte)
           + 65536 * uint (word_of_int (v div 65536) :: byte) = v"
proof -
  have a: "uint (word_of_int v :: byte) = v mod 256"
    and b: "uint (word_of_int (v div 256) :: byte) = (v div 256) mod 256"
    and c: "uint (word_of_int (v div 65536) :: byte) = (v div 65536) mod 256"
    by (simp_all add: uint_word_of_int_eq take_bit_eq_mod)
  from assms have "v div 65536 < 256" by simp
  moreover from assms have "0 \<le> v div 65536" by simp
  ultimately have c': "(v div 65536) mod 256 = v div 65536" by simp
  have d: "v div 65536 = (v div 256) div 256"
    by (simp add: zdiv_zmult2_eq)
  have e: "v = 256 * (v div 256) + v mod 256" by simp
  have f: "v div 256 = 256 * ((v div 256) div 256) + (v div 256) mod 256" by simp
  have c'': "uint (word_of_int (v div 65536) :: byte) = (v div 256) div 256"
    using c c' d by simp
  show ?thesis unfolding a b c'' using e f by linarith
qed

lemma one_byte:
  assumes "0 \<le> v" "v < 256"
  shows "uint (word_of_int v :: byte) = v"
  using assms by (simp add: uint_word_of_int_eq take_bit_eq_mod)


lemma pack_I_fits:
  "0 \<le> v \<Longrightarrow> v < 2 ^ 32 \<Longrightarrow>
     andthen (pack_I (Some v)) k =
       k [word_of_int v, word_of_int (v div 256), word_of_int (v div 65536),
          word_of_int (v div 16777216)]"
  by (simp add: pack_I_def)

lemma pack_B_fits:
  "0 \<le> v \<Longrightarrow> v < 256 \<Longrightarrow> andthen (pack_B (Some v)) k = k [word_of_int v]"
  by (simp add: pack_B_def)

lemma bytes_Cons:
  "bytes (uint w # xs) = andthen (bytes xs) (\<lambda>ws. Inr (w # ws))"
  by (simp add: bytes_def uint_byte_lt)

lemma bytes_Cons_num:
  "0 \<le> x \<Longrightarrow> x < 256 \<Longrightarrow> bytes (x # xs) = andthen (bytes xs) (\<lambda>ws. Inr (word_of_int x # ws))"
  by (simp add: bytes_def)

lemma bytes_Nil: "bytes [] = Inr []"
  by (simp add: bytes_def)

lemma encode_pll_fits_buf:
  fixes p1 p2 p3 p4 q1 q2 q3 q4 :: byte
  shows "bytes (slice_assign (slice_assign (slice_assign (slice_assign (slice_assign (slice_assign
     (slice_assign (slice_assign (slice_assign ((replicate 60 0)[0 := 4])
        1 4 (take 3 [p1, p2, p3, p4]))
        4 7 (take 3 [q1, q2, q3, q4]))
        7 8 (take 1 [r1]))
        8 11 (take 3 [s1, s2, s3, s4]))
        11 12 (take 1 [t1]))
        12 15 (take 3 [u1, u2, u3, u4]))
        15 18 (take 3 [v1, v2, v3, v4]))
        18 19 (take 1 [w1]))
        19 20 (take 1 [x1])) =
     Inr ([4, p1, p2, p3, q1, q2, q3, r1, s1, s2, s3, t1, u1, u2, u3, v1, v2, v3, w1, x1]
          @ replicate 40 0)"
  by (simp add: slice_assign_def zeros60 zeros40 bytes_def uint_byte_lt)

lemma encode_pll_fits:
  assumes s: "fin s = Some a" "n3 s = Some b" "n2_hs s = Some c" "n2_ls s = Some d"
    "n1_hs s = Some e" "nc1_ls s = Some f" "nc2_ls s = Some g" "skew s = Some h" "bw s = Some i"
    and r: "0 \<le> a" "a < 2 ^ 32" "0 \<le> b - 1" "b - 1 < 2 ^ 32" "0 \<le> c - 4" "c - 4 < 256"
    "0 \<le> d - 1" "d - 1 < 2 ^ 32" "0 \<le> e - 4" "e - 4 < 256"
    "0 \<le> f - 1" "f - 1 < 2 ^ 32" "0 \<le> g - 1" "g - 1 < 2 ^ 32"
    "0 \<le> h" "h < 256" "0 \<le> i" "i < 256"
  shows "encode_pll s =
     Inr ([4, word_of_int a, word_of_int (a div 256), word_of_int (a div 65536),
           word_of_int (b - 1), word_of_int ((b - 1) div 256), word_of_int ((b - 1) div 65536),
           word_of_int (c - 4),
           word_of_int (d - 1), word_of_int ((d - 1) div 256), word_of_int ((d - 1) div 65536),
           word_of_int (e - 4),
           word_of_int (f - 1), word_of_int ((f - 1) div 256), word_of_int ((f - 1) div 65536),
           word_of_int (g - 1), word_of_int ((g - 1) div 256), word_of_int ((g - 1) div 65536),
           word_of_int h, word_of_int i] @ replicate 40 0)"
proof -
  note p = pack_I_fits [OF r(1,2)] pack_I_fits [OF r(3,4)] pack_B_fits [OF r(5,6)]
    pack_I_fits [OF r(7,8)] pack_B_fits [OF r(9,10)] pack_I_fits [OF r(11,12)]
    pack_I_fits [OF r(13,14)] pack_B_fits [OF r(15,16)] pack_B_fits [OF r(17,18)]
  show ?thesis
    unfolding encode_pll_def s py_sub_def Let_def COMMAND_PLL_def
    by (simp only: p andthen_Inr_simp sum.case option.case encode_pll_fits_buf)
qed

lemma decode_config_bytes:
  "decode_config (b0 # b1 # b2 # b3 # b4 # b5 # b6 # b7 # b8 # b9 # b10 # b11 # b12 # b13
       # b14 # b15 # b16 # b17 # b18 # b19 # b20 # rest) =
     Inr \<lparr> c_out1 = (uint b0 AND 1 \<noteq> 0), c_out2 = (uint b0 AND 2 \<noteq> 0),
           c_level = uint b1,
           c_fin = uint b2 + 256 * uint b3 + 65536 * uint b4,
           c_n3 = uint b5 + 256 * uint b6 + 65536 * uint b7 + 1,
           c_n2_hs = uint b8 + 4,
           c_n2_ls = uint b9 + 256 * uint b10 + 65536 * uint b11 + 1,
           c_n1_hs = uint b12 + 4,
           c_nc1_ls = uint b13 + 256 * uint b14 + 65536 * uint b15 + 1,
           c_nc2_ls = uint b16 + 256 * uint b17 + 65536 * uint b18 + 1,
           c_skew = uint b19, c_bw = uint b20 \<rparr>"
  by (simp add: decode_config_def slice_def unpack_B_def unpack_I_def OUTPUT1_def OUTPUT2_def)

lemma at_least_21:
  assumes "21 \<le> length (buf :: 'a list)"
  shows "\<exists>b0 b1 b2 b3 b4 b5 b6 b7 b8 b9 b10 b11 b12 b13 b14 b15 b16 b17 b18 b19 b20 rest.
           buf = b0 # b1 # b2 # b3 # b4 # b5 # b6 # b7 # b8 # b9 # b10 # b11 # b12 # b13
                   # b14 # b15 # b16 # b17 # b18 # b19 # b20 # rest"
  using assms
  by (simp add: numeral_eq_Suc Suc_le_length_iff) (elim exE conjE, hypsubst, simp)

lemma pack_I_fails:
  "\<not> (0 \<le> v \<and> v < 2 ^ 32) \<Longrightarrow> pack_I (Some v) = Inl StructError"
  by (simp add: pack_I_def)

lemma pack_B_fails:
  "\<not> (0 \<le> v \<and> v < 256) \<Longrightarrow> pack_B (Some v) = Inl StructError"
  by (simp add: pack_B_def)

lemma pack_I_cases: "pack_I (Some v) = Inl StructError \<or> (\<exists>x. pack_I (Some v) = Inr x)"
  by (simp add: pack_I_def)

lemma pack_B_cases: "pack_B (Some v) = Inl StructError \<or> (\<exists>x. pack_B (Some v) = Inr x)"
  by (simp add: pack_B_def)

text \<open>A chain of nine steps raises what its first failing step raises.\<close>

lemma chain9:
  assumes "m1 = Inl E \<or> (\<exists>x. m1 = Inr x)" "m2 = Inl E \<or> (\<exists>x. m2 = Inr x)"
    "m3 = Inl E \<or> (\<exists>x. m3 = Inr x)" "m4 = Inl E \<or> (\<exists>x. m4 = Inr x)"
    "m5 = Inl E \<or> (\<exists>x. m5 = Inr x)" "m6 = Inl E \<or> (\<exists>x. m6 = Inr x)"
    "m7 = Inl E \<or> (\<exists>x. m7 = Inr x)" "m8 = Inl E \<or> (\<exists>x. m8 = Inr x)"
    "m9 = Inl E \<or> (\<exists>x. m9 = Inr x)"
    and "m1 = Inl E \<or> m2 = Inl E \<or> m3 = Inl E \<or> m4 = Inl E \<or> m5 = Inl E
         \<or> m6 = Inl E \<or> m7 = Inl E \<or> m8 = Inl E \<or> m9 = Inl E"
  shows "andthen m1 (\<lambda>x1. andthen m2 (\<lambda>x2. andthen m3 (\<lambda>x3. andthen m4 (\<lambda>x4.
           andthen m5 (\<lambda>x5. andthen m6 (\<lambda>x6. andthen m7 (\<lambda>x7. andthen m8 (\<lambda>x8.
           andthen m9 (\<lambda>x9. K x1 x2 x3 x4 x5 x6 x7 x8 x9))))))))) = Inl E"
  using assms by (elim disjE exE) simp_all

lemma encode_pll_unfit:
  assumes s: "fin s = Some a" "n3 s = Some b" "n2_hs s = Some c" "n2_ls s = Some d"
    "n1_hs s = Some e" "nc1_ls s = Some f" "nc2_ls s = Some g" "skew s = Some h" "bw s = Some i"
    and u: "\<not> (0 \<le> a \<and> a < 2 ^ 32) \<or> \<not> (0 \<le> b - 1 \<and> b - 1 < 2 ^ 32)
       \<or> \<not> (0 \<le> c - 4 \<and> c - 4 < 256) \<or> \<not> (0 \<le> d - 1 \<and> d - 1 < 2 ^ 32)
       \<or> \<not> (0 \<le> e - 4 \<and> e - 4 < 256) \<or> \<not> (0 \<le> f - 1 \<and> f - 1 < 2 ^ 32)
       \<or> \<not> (0 \<le> g - 1 \<and> g - 1 < 2 ^ 32) \<or> \<not> (0 \<le> h \<and> h < 256)
       \<or> \<not> (0 \<le> i \<and> i < 256)"
  shows "encode_pll s = Inl StructError"
proof -
  from u have
    "pack_I (Some a) = Inl StructError \<or> pack_I (Some (b - 1)) = Inl StructError
     \<or> pack_B (Some (c - 4)) = Inl StructError \<or> pack_I (Some (d - 1)) = Inl StructError
     \<or> pack_B (Some (e - 4)) = Inl StructError \<or> pack_I (Some (f - 1)) = Inl StructError
     \<or> pack_I (Some (g - 1)) = Inl StructError \<or> pack_B (Some h) = Inl StructError
     \<or> pack_B (Some i) = Inl StructError"
    using pack_I_fails pack_B_fails by blast
  then show ?thesis
    unfolding encode_pll_def s py_sub_def Let_def option.case andthen_Inr_simp
    by (intro chain9 pack_I_cases pack_B_cases)
qed

text \<open>
  C6 (amended). With all nine PLL settings defined, the PLL buffer is built exactly when
  \<open>fin\<close>, \<open>n3 - 1\<close>, \<open>n2_ls - 1\<close>, \<open>nc1_ls - 1\<close> and \<open>nc2_ls - 1\<close> lie in \<open>0..2^32 - 1\<close> (the
  range of the pack format \<open><I\<close>) and \<open>n2_hs - 4\<close>, \<open>n1_hs - 4\<close>, \<open>skew\<close> and \<open>bw\<close> lie in
  0..255; otherwise the call raises \<open>struct.error\<close>. The three bytes written for a 3-byte
  field are the low 24 bits of its value: a value of \<open>2^24..2^32 - 1\<close> is cut, not refused.
\<close>

theorem encode_pll_fails_iff:
  assumes "fin s = Some a" "n3 s = Some b" "n2_hs s = Some c" "n2_ls s = Some d"
    "n1_hs s = Some e" "nc1_ls s = Some f" "nc2_ls s = Some g" "skew s = Some h" "bw s = Some i"
  shows "encode_pll s =
     (if (0 \<le> a \<and> a < 2 ^ 32) \<and> (0 \<le> b - 1 \<and> b - 1 < 2 ^ 32)
         \<and> (0 \<le> c - 4 \<and> c - 4 < 256) \<and> (0 \<le> d - 1 \<and> d - 1 < 2 ^ 32)
         \<and> (0 \<le> e - 4 \<and> e - 4 < 256) \<and> (0 \<le> f - 1 \<and> f - 1 < 2 ^ 32)
         \<and> (0 \<le> g - 1 \<and> g - 1 < 2 ^ 32) \<and> (0 \<le> h \<and> h < 256) \<and> (0 \<le> i \<and> i < 256)
      then Inr ([4, word_of_int a, word_of_int (a div 256), word_of_int (a div 65536),
           word_of_int (b - 1), word_of_int ((b - 1) div 256), word_of_int ((b - 1) div 65536),
           word_of_int (c - 4),
           word_of_int (d - 1), word_of_int ((d - 1) div 256), word_of_int ((d - 1) div 65536),
           word_of_int (e - 4),
           word_of_int (f - 1), word_of_int ((f - 1) div 256), word_of_int ((f - 1) div 65536),
           word_of_int (g - 1), word_of_int ((g - 1) div 256), word_of_int ((g - 1) div 65536),
           word_of_int h, word_of_int i] @ replicate 40 0)
      else Inl StructError)"
proof (cases "(0 \<le> a \<and> a < 2 ^ 32) \<and> (0 \<le> b - 1 \<and> b - 1 < 2 ^ 32)
         \<and> (0 \<le> c - 4 \<and> c - 4 < 256) \<and> (0 \<le> d - 1 \<and> d - 1 < 2 ^ 32)
         \<and> (0 \<le> e - 4 \<and> e - 4 < 256) \<and> (0 \<le> f - 1 \<and> f - 1 < 2 ^ 32)
         \<and> (0 \<le> g - 1 \<and> g - 1 < 2 ^ 32) \<and> (0 \<le> h \<and> h < 256) \<and> (0 \<le> i \<and> i < 256)")
  case True
  then have enc: "encode_pll s =
      Inr ([4, word_of_int a, word_of_int (a div 256), word_of_int (a div 65536),
           word_of_int (b - 1), word_of_int ((b - 1) div 256), word_of_int ((b - 1) div 65536),
           word_of_int (c - 4),
           word_of_int (d - 1), word_of_int ((d - 1) div 256), word_of_int ((d - 1) div 65536),
           word_of_int (e - 4),
           word_of_int (f - 1), word_of_int ((f - 1) div 256), word_of_int ((f - 1) div 65536),
           word_of_int (g - 1), word_of_int ((g - 1) div 256), word_of_int ((g - 1) div 65536),
           word_of_int h, word_of_int i] @ replicate 40 0)"
    by (intro encode_pll_fits assms) blast+
  show ?thesis by (subst if_P [OF True]) (rule enc)
next
  case False
  then have enc: "encode_pll s = Inl StructError"
    by (intro encode_pll_unfit [OF assms]) blast
  show ?thesis by (subst if_not_P [OF False]) (rule enc)
qed

theorem encode_pll_fails_iff_witness:
  "encode_pll (s_wide\<lparr>fin := Some 4294967296\<rparr>) = Inl StructError
   \<and> encode_pll (s_wide\<lparr>n2_hs := Some 260\<rparr>) = Inl StructError"
proof -
  have "encode_pll (s_wide\<lparr>fin := Some 4294967296\<rparr>) = Inl StructError"
    by (subst encode_pll_fails_iff [of _ 4294967296 1000 10 50000 5 2 6 3 15])
       (simp_all add: s_wide_def)
  moreover have "encode_pll (s_wide\<lparr>n2_hs := Some 260\<rparr>) = Inl StructError"
    by (subst encode_pll_fails_iff [of _ 16777216 1000 260 50000 5 2 6 3 15])
       (simp_all add: s_wide_def)
  ultimately show ?thesis by simp
qed

text \<open>
  C6 as stated fails: \<open>fin = 16777216 = 2^24\<close> does not fit 24 bits, and the PLL buffer is
  built, with the three bytes of \<open>fin\<close> all zero.
\<close>

theorem encode_pll_24bit_counterexample:
  "encode_pll s_wide =
     Inr ([4, 0, 0, 0, 231, 3, 0, 6, 79, 195, 0, 1, 1, 0, 0, 5, 0, 0, 3, 15] @ replicate 40 0)
   \<and> \<not> ((16777216::int) \<le> 2 ^ 24 - 1)"
proof -
  have "encode_pll s_wide =
     Inr ([4, word_of_int 16777216, word_of_int (16777216 div 256), word_of_int (16777216 div 65536),
           word_of_int (1000 - 1), word_of_int ((1000 - 1) div 256), word_of_int ((1000 - 1) div 65536),
           word_of_int (10 - 4),
           word_of_int (50000 - 1), word_of_int ((50000 - 1) div 256), word_of_int ((50000 - 1) div 65536),
           word_of_int (5 - 4),
           word_of_int (2 - 1), word_of_int ((2 - 1) div 256), word_of_int ((2 - 1) div 65536),
           word_of_int (6 - 1), word_of_int ((6 - 1) div 256), word_of_int ((6 - 1) div 65536),
           word_of_int 3, word_of_int 15] @ replicate 40 0)"
    by (rule encode_pll_fits) (simp_all add: s_wide_def)
  then show ?thesis by simp
qed

lemma three_bytes_range:
  "0 \<le> uint (x :: byte) + 256 * uint (y :: byte) + 65536 * uint (z :: byte)"
  "uint (x :: byte) + 256 * uint (y :: byte) + 65536 * uint (z :: byte) < 2 ^ 24"
proof -
  have "0 \<le> uint x" "0 \<le> uint y" "0 \<le> uint z" by simp_all
  moreover have "uint x < 256" "uint y < 256" "uint z < 256" by (rule uint_byte_lt)+
  ultimately show
    "0 \<le> uint x + 256 * uint y + 65536 * uint z"
    "uint x + 256 * uint y + 65536 * uint z < 2 ^ 24"
    by simp_all
qed

lemma one_byte_range: "0 \<le> uint (x :: byte)" "uint (x :: byte) \<le> 255"
  using uint_byte_lt [of x] by simp_all

text \<open>Every feature report of at least 21 bytes decodes, to settings in these ranges.\<close>

lemma decode_config_ranges:
  assumes "21 \<le> length buf"
  shows "\<exists>c. decode_config buf = Inr c \<and>
           0 \<le> c_fin c \<and> c_fin c < 2 ^ 24 \<and> 1 \<le> c_n3 c \<and> c_n3 c \<le> 2 ^ 24 \<and>
           4 \<le> c_n2_hs c \<and> c_n2_hs c \<le> 259 \<and> 1 \<le> c_n2_ls c \<and> c_n2_ls c \<le> 2 ^ 24 \<and>
           4 \<le> c_n1_hs c \<and> c_n1_hs c \<le> 259 \<and> 1 \<le> c_nc1_ls c \<and> c_nc1_ls c \<le> 2 ^ 24 \<and>
           1 \<le> c_nc2_ls c \<and> c_nc2_ls c \<le> 2 ^ 24"
proof -
  have r: "0 \<le> v \<and> v < 2 ^ 24 \<Longrightarrow> 1 \<le> v + 1 \<and> v + 1 \<le> 2 ^ 24" for v :: int
    by simp
  have q: "0 \<le> v \<and> v \<le> 255 \<Longrightarrow> 4 \<le> v + 4 \<and> v + 4 \<le> 259" for v :: int
    by simp
  from at_least_21 [OF assms] show ?thesis
    apply (elim exE)
    apply (simp only: decode_config_bytes sum.inject ex_simps simp_thms configdict.simps)
    apply (intro exI conjI refl)
    apply (rule three_bytes_range r [THEN conjunct1] r [THEN conjunct2] q [THEN conjunct1]
             q [THEN conjunct2] conjI one_byte_range)+
    done
qed

lemma freqplan_modify_defined:
  assumes "nc1_ls s \<noteq> None" "nc2_ls s \<noteq> None"
  shows "freqplan_modify s = s"
  unfolding freqplan_modify_def Let_def
  by (simp only: assms simp_thms if_False if_True if_cancel)

lemma compute_freq_zero_fin:
  assumes s: "fin s = Some 0" "n3 s = Some b" "n2_hs s = Some c" "n2_ls s = Some d"
    "n1_hs s = Some e" "nc1_ls s = Some f" "nc2_ls s = Some g" "skew s = Some h"
    and n: "b \<noteq> 0" "e \<noteq> 0" "f \<noteq> 0" "g \<noteq> 0"
  shows "compute_freq s = Inl ZeroDivisionError"
proof -
  have f3: "Fraction 0 b = Inr 0"
    using n(1) by (simp add: Fraction_def)
  have o1: "truediv 0 (of_int (e * f)) = Inr 0"
    using n(2,3) by (simp add: truediv_def)
  have o2: "truediv 0 (of_int (e * g)) = Inr 0"
    using n(2,4) by (simp add: truediv_def)
  have ph: "truediv x 0 = Inl ZeroDivisionError" for x
    by (simp add: truediv_def)
  have fosc: "(0::rat) * of_int c * of_int d = 0" by simp
  show ?thesis
    unfolding compute_freq_def s defined_def Let_def
    by (simp only: f3 o1 o2 ph fosc andthen_Inr_simp andthen_Inl_simp prod.case option.case)
qed

lemma gpsdo_of_fields:
  "fin (gpsdo_of c) = Some (c_fin c)" "n3 (gpsdo_of c) = Some (c_n3 c)"
  "n2_hs (gpsdo_of c) = Some (c_n2_hs c)" "n2_ls (gpsdo_of c) = Some (c_n2_ls c)"
  "n1_hs (gpsdo_of c) = Some (c_n1_hs c)" "nc1_ls (gpsdo_of c) = Some (c_nc1_ls c)"
  "nc2_ls (gpsdo_of c) = Some (c_nc2_ls c)" "skew (gpsdo_of c) = Some (c_skew c)"
  by (simp_all add: gpsdo_of_def)

lemma freqplan_raises:
  assumes "compute_freq (if modify then freqplan_modify s else s) = Inl e"
  shows "fst (freqplan s modify ign) = Inl e"
  using assms by (simp add: freqplan_def Let_def)

text \<open>What \<open>freqplan\<close> does on decoded settings in the ranges of the read layout.\<close>

lemma freqplan_decoded:
  assumes "1 \<le> c_n3 c" "4 \<le> c_n2_hs c" "1 \<le> c_n2_ls c" "4 \<le> c_n1_hs c"
    "1 \<le> c_nc1_ls c" "1 \<le> c_nc2_ls c"
    and b: "0 \<le> c_fin c" "c_fin c < 2 ^ 24" "c_n2_hs c \<le> 259" "c_n2_ls c \<le> 2 ^ 24"
  shows "if c_fin c = 0
         then fst (freqplan (gpsdo_of c) modify ign) = Inl ZeroDivisionError
         else (\<exists>r. fst (freqplan (gpsdo_of c) modify ign) = Inr r)"
proof (cases "c_fin c = 0")
  case True
  have m: "(if modify then freqplan_modify (gpsdo_of c) else gpsdo_of c) = gpsdo_of c"
    by (simp add: freqplan_modify_defined gpsdo_of_fields)
  have z: "fin (gpsdo_of c) = Some 0"
    by (simp add: gpsdo_of_fields True)
  from assms(1,4,5,6) have nz: "c_n3 c \<noteq> 0" "c_n1_hs c \<noteq> 0" "c_nc1_ls c \<noteq> 0"
    "c_nc2_ls c \<noteq> 0"
    by simp_all
  have "compute_freq (gpsdo_of c) = Inl ZeroDivisionError"
    by (rule compute_freq_zero_fin [OF z gpsdo_of_fields(2-8) nz])
  then have r: "fst (freqplan (gpsdo_of c) modify ign) = Inl ZeroDivisionError"
    by (intro freqplan_raises) (simp only: m)
  show ?thesis by (subst if_P [OF True]) (rule r)
next
  case False
  have "\<forall>v. Some v \<in> {fin (gpsdo_of c), n2_hs (gpsdo_of c), n2_ls (gpsdo_of c)}
          \<longrightarrow> \<bar>v\<bar> \<le> 2 ^ 32"
    using assms(2,3) b by (auto simp: gpsdo_of_fields)
  then have r: "\<exists>r. fst (freqplan (gpsdo_of c) modify ign) = Inr r"
    using assms(1-6) False
    by (intro freqplan_returns) (simp_all add: gpsdo_of_fields)
  show ?thesis by (subst if_not_P [OF False]) (rule r)
qed

text \<open>
  C10 (amended). Every feature report of at least 21 bytes decodes, and the decoded
  dividers satisfy \<open>n3 \<ge> 1\<close>, \<open>n2_ls \<ge> 1\<close>, \<open>nc1_ls \<ge> 1\<close>, \<open>nc2_ls \<ge> 1\<close>, \<open>n2_hs \<ge> 4\<close>
  and \<open>n1_hs \<ge> 4\<close>, so the divisors that \<open>freqplan\<close> forms from dividers (\<open>n3\<close>,
  \<open>n1_hs * nc1_ls\<close>, \<open>n1_hs * nc2_ls\<close>, \<open>nc2_ls\<close>) are not zero. \<open>fin\<close> is decoded
  as it is stored: on the object that holds the decoded settings, \<open>freqplan\<close> raises
  \<open>ZeroDivisionError\<close> when \<open>fin\<close> is 0 (then \<open>fosc\<close>, the divisor of \<open>phase\<close> and
  \<open>phaseres\<close>, is 0) and returns otherwise.
\<close>

theorem decode_dividers_positive:
  assumes "21 \<le> length buf"
  shows "\<exists>c. decode_config buf = Inr c \<and>
           1 \<le> c_n3 c \<and> 1 \<le> c_n2_ls c \<and> 1 \<le> c_nc1_ls c \<and> 1 \<le> c_nc2_ls c \<and>
           4 \<le> c_n2_hs c \<and> 4 \<le> c_n1_hs c \<and>
           c_n3 c \<noteq> 0 \<and> c_n1_hs c * c_nc1_ls c \<noteq> 0 \<and> c_n1_hs c * c_nc2_ls c \<noteq> 0 \<and>
           c_nc2_ls c \<noteq> 0 \<and>
           (if c_fin c = 0
            then fst (freqplan (gpsdo_of c) modify ign) = Inl ZeroDivisionError
            else (\<exists>r. fst (freqplan (gpsdo_of c) modify ign) = Inr r))"
proof -
  from decode_config_ranges [OF assms] obtain c where
    d: "decode_config buf = Inr c"
    and r: "1 \<le> c_n3 c" "4 \<le> c_n2_hs c" "1 \<le> c_n2_ls c" "4 \<le> c_n1_hs c"
      "1 \<le> c_nc1_ls c" "1 \<le> c_nc2_ls c"
    and b: "0 \<le> c_fin c" "c_fin c < 2 ^ 24" "c_n2_hs c \<le> 259" "c_n2_ls c \<le> 2 ^ 24"
    by blast
  note f = freqplan_decoded [OF r b, of modify ign]
  from r have "c_n3 c \<noteq> 0" "c_n1_hs c * c_nc1_ls c \<noteq> 0" "c_n1_hs c * c_nc2_ls c \<noteq> 0"
    "c_nc2_ls c \<noteq> 0"
    by simp_all
  with d r f show ?thesis by blast
qed

lemma decode_zero: "decode_config (replicate 21 0) = Inr c_zero"
proof -
  have "replicate 21 (0::byte) = [0,0,0,0,0,0,0,0,0,0, 0,0,0,0,0,0,0,0,0,0, 0]"
    by (simp add: numeral_eq_Suc)
  then show ?thesis by (simp add: decode_config_bytes c_zero_def)
qed

theorem decode_dividers_positive_witness:
  "c_fin c_zero = 0 \<and> 1 \<le> c_n3 c_zero \<and> 4 \<le> c_n1_hs c_zero \<and>
   fst (freqplan (gpsdo_of c_zero) True False) = Inl ZeroDivisionError"
proof -
  have "21 \<le> length (replicate 21 (0::byte))" by simp
  from decode_dividers_positive [OF this, of True False] obtain c where
    d: "decode_config (replicate 21 0) = Inr c"
    and p: "1 \<le> c_n3 c" "4 \<le> c_n1_hs c"
    and f: "if c_fin c = 0
            then fst (freqplan (gpsdo_of c) True False) = Inl ZeroDivisionError
            else (\<exists>r. fst (freqplan (gpsdo_of c) True False) = Inr r)"
    by blast
  from d have c: "c = c_zero" by (simp add: decode_zero)
  have z: "c_fin c_zero = 0" by (simp add: c_zero_def)
  from f p show ?thesis unfolding c by (simp add: z)
qed

text \<open>
  C10 as stated fails: a feature report of 21 zero bytes decodes to \<open>fin = 0\<close>, so
  \<open>fosc = 0\<close>, and on these settings \<open>freqplan\<close> divides by \<open>fosc\<close>.
\<close>

theorem decoded_fosc_zero_counterexample:
  "decode_config (replicate 21 0) = Inr c_zero \<and> fosc_of c_zero = 0 \<and>
   fst (freqplan (gpsdo_of c_zero) False False) = Inl ZeroDivisionError"
proof -
  have z: "c_fin c_zero = 0" by (simp add: c_zero_def)
  have "if c_fin c_zero = 0
        then fst (freqplan (gpsdo_of c_zero) False False) = Inl ZeroDivisionError
        else (\<exists>r. fst (freqplan (gpsdo_of c_zero) False False) = Inr r)"
    by (rule freqplan_decoded) (simp_all add: c_zero_def)
  then have "fst (freqplan (gpsdo_of c_zero) False False) = Inl ZeroDivisionError"
    by (simp only: z if_True)
  moreover have "fosc_of c_zero = 0" by (simp add: fosc_of_def z)
  ultimately show ?thesis by (simp only: decode_zero simp_thms)
qed

(*ROUNDTRIP*)

end
